theory Spec2Isabelle
  imports Main "HOL-Library.Word" "HOL-Library.Sublist"
begin

unbundle bit_operations_syntax

section \<open>Strings, bytes and the library functions the drivers call\<close>

text \<open>
  Go strings are byte sequences: a \<^typ>\<open>string\<close> here is the list of the bytes of the Go
  string, and \<open>[]byte(s)\<close> is \<open>bytes_of s\<close>. Go's \<open>int\<close> is taken as 64 bits wide.
\<close>

type_synonym byte = "8 word"

definition bytes_of :: "string \<Rightarrow> byte list" where
  "bytes_of s = map of_char s"

definition is_digit :: "char \<Rightarrow> bool" where
  "is_digit c = (c \<in> set ''0123456789'')"

definition digit_val :: "char \<Rightarrow> nat" where
  "digit_val c = of_char c - 48"

definition max_int :: nat where
  "max_int = 2 ^ 63 - 1"

text \<open>
  \<open>strconv.Atoi\<close> on a run of ASCII digits, as the value it returns (the error is dropped
  by every caller): the decimal value, the largest \<open>int\<close> when that is out of range,
  and 0 for the empty string.
\<close>

definition atoi :: "string \<Rightarrow> nat" where
  "atoi s = min (foldl (\<lambda>n c. 10 * n + digit_val c) 0 s) max_int"

text \<open>
  \<open>strings.TrimSpace\<close>: leading and trailing white space runes are removed. The runes with
  Unicode's White Space property are listed by their UTF-8 encodings.
\<close>

definition ws_runes :: "string list" where
  "ws_runes =
    [[CHR 0x09], [CHR 0x0A], [CHR 0x0B], [CHR 0x0C], [CHR 0x0D], [CHR 0x20],
     [CHR 0xC2, CHR 0x85], [CHR 0xC2, CHR 0xA0], [CHR 0xE1, CHR 0x9A, CHR 0x80],
     [CHR 0xE2, CHR 0x80, CHR 0x80], [CHR 0xE2, CHR 0x80, CHR 0x81],
     [CHR 0xE2, CHR 0x80, CHR 0x82], [CHR 0xE2, CHR 0x80, CHR 0x83],
     [CHR 0xE2, CHR 0x80, CHR 0x84], [CHR 0xE2, CHR 0x80, CHR 0x85],
     [CHR 0xE2, CHR 0x80, CHR 0x86], [CHR 0xE2, CHR 0x80, CHR 0x87],
     [CHR 0xE2, CHR 0x80, CHR 0x88], [CHR 0xE2, CHR 0x80, CHR 0x89],
     [CHR 0xE2, CHR 0x80, CHR 0x8A], [CHR 0xE2, CHR 0x80, CHR 0xA8],
     [CHR 0xE2, CHR 0x80, CHR 0xA9], [CHR 0xE2, CHR 0x80, CHR 0xAF],
     [CHR 0xE2, CHR 0x81, CHR 0x9F], [CHR 0xE3, CHR 0x80, CHR 0x80]]"

lemma ws_runes_nonempty: "w \<in> set ws_runes \<Longrightarrow> w \<noteq> []"
  by (auto simp: ws_runes_def)

lemma find_ws_prefix: "List.find (\<lambda>w. prefix w s) ws_runes = Some w \<Longrightarrow> w \<noteq> [] \<and> prefix w s"
  by (auto simp: find_Some_iff dest: nth_mem [THEN ws_runes_nonempty])

lemma find_ws_suffix: "List.find (\<lambda>w. suffix w s) ws_runes = Some w \<Longrightarrow> w \<noteq> [] \<and> suffix w s"
  by (auto simp: find_Some_iff dest: nth_mem [THEN ws_runes_nonempty])

function trim_left :: "string \<Rightarrow> string" where
  "trim_left s =
     (case List.find (\<lambda>w. prefix w s) ws_runes of
        None \<Rightarrow> s
      | Some w \<Rightarrow> trim_left (drop (length w) s))"
  by pat_completeness auto
termination
proof (relation "measure length")
  show "wf (measure length)" by simp
next
  fix s w
  assume "List.find (\<lambda>w. prefix w s) ws_runes = Some w"
  then have "w \<noteq> []" and "prefix w s" using find_ws_prefix by blast+
  then have "s \<noteq> []" by auto
  with \<open>w \<noteq> []\<close> show "(drop (length w) s, s) \<in> measure length" by simp
qed

declare trim_left.simps [simp del]

function trim_right :: "string \<Rightarrow> string" where
  "trim_right s =
     (case List.find (\<lambda>w. suffix w s) ws_runes of
        None \<Rightarrow> s
      | Some w \<Rightarrow> trim_right (take (length s - length w) s))"
  by pat_completeness auto
termination
proof (relation "measure length")
  show "wf (measure length)" by simp
next
  fix s w
  assume "List.find (\<lambda>w. suffix w s) ws_runes = Some w"
  then have "w \<noteq> []" and "suffix w s" using find_ws_suffix by blast+
  then have "s \<noteq> []" by auto
  with \<open>w \<noteq> []\<close> show "(take (length s - length w) s, s) \<in> measure length" by simp
qed

declare trim_right.simps [simp del]

definition TrimSpace :: "string \<Rightarrow> string" where
  "TrimSpace s = trim_right (trim_left s)"

text \<open>
  \<open>regexp.MustCompile(`\[(\d*)]`).FindAllStringSubmatch(name, -1)\<close>, as the list of the
  first submatches: the matches are searched from left to right, each one an opening
  bracket, a run of digits and a closing bracket, and the search goes on after the match.
\<close>

function FindAllStringSubmatch :: "string \<Rightarrow> string list" where
  "FindAllStringSubmatch [] = []"
| "FindAllStringSubmatch (c # cs) =
     (if c = CHR ''[''
      then (case dropWhile is_digit cs of
              [] \<Rightarrow> FindAllStringSubmatch cs
            | r # rest \<Rightarrow>
                if r = CHR '']'' then takeWhile is_digit cs # FindAllStringSubmatch rest
                else FindAllStringSubmatch cs)
      else FindAllStringSubmatch cs)"
  by pat_completeness auto
termination
proof (relation "measure length")
  show "wf (measure length)" by simp
next
  fix c :: char and cs r rest
  assume "dropWhile is_digit cs = r # rest"
  then have "length (r # rest) \<le> length cs" by (metis length_dropWhile_le)
  then show "(rest, c # cs) \<in> measure length" by simp
qed simp_all

text \<open>
  \<open>regexp.MustCompile(`^(.+?)(\d*)$`).FindStringSubmatch(name)\<close>: the first group is lazy,
  so it is the shortest non-empty prefix that leaves only digits; the dot matches no
  line feed, so a name holding one has no match, as the empty name has none.
\<close>

fun lazy_prefix :: "string \<Rightarrow> string \<Rightarrow> string \<times> string" where
  "lazy_prefix pre [] = (pre, [])"
| "lazy_prefix pre (c # cs) =
     (if list_all is_digit (c # cs) then (pre, c # cs) else lazy_prefix (pre @ [c]) cs)"

definition FindStringSubmatch :: "string \<Rightarrow> (string \<times> string) option" where
  "FindStringSubmatch name =
     (case name of
        [] \<Rightarrow> None
      | c # cs \<Rightarrow> if CHR 0x0A \<in> set name then None else Some (lazy_prefix [c] cs))"

section \<open>The typed-data document\<close>

text \<open>
  A value of the document is a Go \<open>interface{}\<close>: what JSON decoding and the domain's
  \<open>Map()\<close> produce. A \<open>float64\<close> is read by the drivers only through \<open>int64(f)\<close>, so it
  is represented by that conversion's result; \<open>VHex None\<close> is a nil
  \<open>*math.HexOrDecimal256\<close> and \<open>VHex (Some n)\<close> one that holds the integer \<open>n\<close>;
  \<open>VArray\<close> is a \<open>[]interface{}\<close> and \<open>VMap\<close> a \<open>map[string]interface{}\<close>;
  \<open>VSlice\<close> is a slice or an array of any other type, with its elements as interface
  values, and \<open>VOtherMap\<close> a map of any other type; \<open>VOther\<close> is a value of any
  other dynamic type, neither slice, array nor map. A Go map is an association list, read
  with \<open>map_of\<close>.
\<close>

datatype gvalue =
    VNil
  | VString string
  | VBool bool
  | VFloat "64 word"
  | VHex "int option"
  | VArray "gvalue list"
  | VMap "(string \<times> gvalue) list"
  | VSlice "gvalue list"
  | VOtherMap
  | VOther

text \<open>
  The test \<open>k == reflect.Array || k == reflect.Slice\<close> on the kind of a value, with the
  elements that \<open>reflect.ValueOf(v).Index(i).Interface()\<close> reads.
\<close>

definition elements :: "gvalue \<Rightarrow> gvalue list option" where
  "elements v = (case v of VArray a \<Rightarrow> Some a | VSlice a \<Rightarrow> Some a | _ \<Rightarrow> None)"

lemma elements_simps [simp]:
  "elements (VArray a) = Some a" "elements (VSlice a) = Some a" "elements VNil = None"
  "elements (VString s) = None" "elements (VBool b) = None" "elements (VFloat f) = None"
  "elements (VHex h) = None" "elements (VMap m) = None" "elements VOtherMap = None"
  "elements VOther = None"
  by (simp_all add: elements_def)

record apitype =
  Name :: string
  Type :: string

text \<open>
  \<open>Types\<close> maps a struct name to its fields; a name can be stored with a nil slice
  (\<open>None\<close>), which reads like an absent name. \<open>Domain\<close> is the map that
  \<open>data.Domain.Map()\<close> returns.
\<close>

record TypedData =
  Types :: "(string \<times> apitype list option) list"
  PrimaryType :: string
  Domain :: "(string \<times> gvalue) list"
  Message :: "(string \<times> gvalue) list"

definition types_get :: "TypedData \<Rightarrow> string \<Rightarrow> apitype list option" where
  "types_get data name = (case map_of (Types data) name of None \<Rightarrow> None | Some fs \<Rightarrow> fs)"

definition map_get :: "(string \<times> gvalue) list \<Rightarrow> string \<Rightarrow> gvalue" where
  "map_get m k = (case map_of m k of None \<Rightarrow> VNil | Some v \<Rightarrow> v)"

section \<open>Errors\<close>

datatype exchange_error =
    TrezorFailure "nat option"
  | TransportError string

datatype panic = IndexOutOfRange | NilDereference | SliceOutOfRange | TypeAssertion

datatype error =
    Panic panic
  | ErrWalletClosed
  | UnknownType string
  | InvalidLength string string
  | InvalidType string
  | LedgerVersionRequired byte byte byte
  | ReplyLacksSignature
  | InvalidSignatureLength nat
  | DomainTypeRequired
  | PrimaryTypeNotFound string
  | NilValue string
  | ExpectedArray string
  | ExpectedStruct string
  | HexDecodeFailed string
  | InvalidStringValue string string
  | UnsupportedValueType string
  | Exchange exchange_error
  | Wrap string error
  | HashingError string
  | NestedArraysUnsupported exchange_error
  | NoFieldsForStruct string
  | NoStructType
  | InvalidFieldIndex "32 word"
  | ExpectedArrayAt
  | InvalidArrayIndex "32 word"
  | ExpectedMapAt
  | CannotEncodeCustom string
  | ValueTooLong nat nat
  | ExpectedBool
  | ExpectedString
  | ExpectedBytes
  | UnexpectedReplyIndex nat

section \<open>The type resolver (data\_type.go)\<close>

datatype dataType =
    CustomType | IntType | UintType | AddressType | BoolType | StringType
  | FixedBytesType | BytesType

definition nameToType :: "string \<Rightarrow> dataType option" where
  "nameToType =
     map_of [(''int'', IntType), (''uint'', UintType), (''address'', AddressType),
             (''bool'', BoolType), (''string'', StringType), (''bytes'', BytesType)]"

definition parseType ::
  "TypedData \<Rightarrow> apitype \<Rightarrow> error + (dataType \<times> string \<times> nat \<times> nat option list)" where
  "parseType data field =
     (let trimmed = TrimSpace (Type field);
          arrayLengths = FindAllStringSubmatch trimmed;
          arrayLevels = map (\<lambda>l. if l = [] then None else Some (atoi l)) arrayLengths;
          name = (if arrayLengths \<noteq> [] then takeWhile (\<lambda>c. c \<noteq> CHR ''['') trimmed
                  else trimmed)
      in if types_get data name \<noteq> None then Inr (CustomType, name, 0, arrayLevels)
         else
           (case FindStringSubmatch name of
              None \<Rightarrow> Inl (Panic IndexOutOfRange)
            | Some (name', lengthStr) \<Rightarrow>
                (case nameToType name' of
                   None \<Rightarrow> Inl (UnknownType (Type field))
                 | Some dt \<Rightarrow>
                     (let byteLength = atoi lengthStr;
                          finish = (\<lambda>dt' n.
                            if lengthStr \<noteq> [] \<and> (n < 1 \<or> n > 32)
                            then Inl (InvalidLength (Type field) lengthStr)
                            else Inr (dt', name', n, arrayLevels))
                      in if dt = UintType \<or> dt = IntType then
                           (if lengthStr = [] then finish dt 32
                            else if byteLength mod 8 \<noteq> 0
                            then Inl (InvalidLength (Type field) lengthStr)
                            else finish dt (byteLength div 8))
                         else if lengthStr \<noteq> [] then
                           (if dt = BytesType then finish FixedBytesType byteLength
                            else Inl (InvalidType (Type field)))
                         else if dt = AddressType then finish dt 20
                         else finish dt byteLength))))"


section \<open>Byte encodings\<close>

definition be16 :: "16 word \<Rightarrow> byte list" where
  "be16 w = [ucast (drop_bit 8 w), ucast w]"

definition be32 :: "32 word \<Rightarrow> byte list" where
  "be32 w = [ucast (drop_bit 24 w), ucast (drop_bit 16 w), ucast (drop_bit 8 w), ucast w]"

text \<open>\<open>big.Int.Bytes\<close>: the magnitude, big-endian, with no leading zero byte.\<close>

fun big_Bytes :: "nat \<Rightarrow> byte list" where
  "big_Bytes n = (if n = 0 then [] else big_Bytes (n div 256) @ [of_nat (n mod 256)])"

declare big_Bytes.simps [simp del]

definition hexval :: "char \<Rightarrow> nat option" where
  "hexval c =
     (let n = (of_char c :: nat)
      in if 48 \<le> n \<and> n \<le> 57 then Some (n - 48)
         else if 97 \<le> n \<and> n \<le> 102 then Some (n - 87)
         else if 65 \<le> n \<and> n \<le> 70 then Some (n - 55)
         else None)"

text \<open>
  \<open>hex.DecodeString\<close>: the bytes decoded before the first error, and whether there was
  none (an odd length or a character that is no hexadecimal digit is an error).
\<close>

fun hex_DecodeString :: "string \<Rightarrow> byte list \<times> bool" where
  "hex_DecodeString [] = ([], True)"
| "hex_DecodeString [p] = ([], False)"
| "hex_DecodeString (p # q # rest) =
     (case (hexval p, hexval q) of
        (Some a, Some b) \<Rightarrow>
          (case hex_DecodeString rest of (bs, ok) \<Rightarrow> (of_nat (16 * a + b) # bs, ok))
      | _ \<Rightarrow> ([], False))"

text \<open>\<open>common.FromHex\<close> of go-ethereum: an optional 0x or 0X, a zero nibble in front of an
  odd number of digits, and the decoder's bytes whatever its error.\<close>

definition has0xPrefix :: "string \<Rightarrow> bool" where
  "has0xPrefix s =
     (case s of a # b # _ \<Rightarrow> a = CHR ''0'' \<and> (b = CHR ''x'' \<or> b = CHR ''X'') | _ \<Rightarrow> False)"

definition FromHex :: "string \<Rightarrow> byte list" where
  "FromHex s =
     (let s1 = (if has0xPrefix s then drop 2 s else s);
          s2 = (if odd (length s1) then CHR ''0'' # s1 else s1)
      in fst (hex_DecodeString s2))"

definition int64_Bytes :: "64 word \<Rightarrow> byte list" where
  "int64_Bytes f = big_Bytes (nat \<bar>sint f\<bar>)"

section \<open>Family A: the Ledger driver\<close>

text \<open>
  \<open>ledgerExchange\<close> is not part of these sources: the device is a parameter \<open>ex\<close>, a
  function from its state and a request to the reply and its next state. A session
  holds the device state and the requests sent so far.
\<close>

type_synonym apdu = "byte \<times> byte \<times> byte \<times> byte list"

type_synonym 's device = "'s \<Rightarrow> apdu \<Rightarrow> (exchange_error + byte list) \<times> 's"

record 's session =
  dev :: 's
  sent :: "apdu list"

definition ledgerExchange ::
  "'s device \<Rightarrow> 's session \<Rightarrow> apdu \<Rightarrow> (exchange_error + byte list) \<times> 's session" where
  "ledgerExchange ex ses a =
     (case ex (dev ses) a of (r, s') \<Rightarrow> (r, \<lparr>dev = s', sent = sent ses @ [a]\<rparr>))"

record ledgerDriver =
  offline :: bool
  version :: "byte \<times> byte \<times> byte"

definition ledgerOpSignPersonalMessage :: byte where "ledgerOpSignPersonalMessage = 0x08"
definition ledgerOpEip712SendStructDef :: byte where "ledgerOpEip712SendStructDef = 0x1a"
definition ledgerOpEip712SendStructImpl :: byte where "ledgerOpEip712SendStructImpl = 0x1c"
definition ledgerP1CompleteSend :: byte where "ledgerP1CompleteSend = 0x00"
definition ledgerP2StructName :: byte where "ledgerP2StructName = 0x00"
definition ledgerP2RootStruct :: byte where "ledgerP2RootStruct = 0x00"
definition ledgerP2Array :: byte where "ledgerP2Array = 0x0f"
definition ledgerP2StructField :: byte where "ledgerP2StructField = 0xff"
definition ledgerP2FullImplementation :: byte where "ledgerP2FullImplementation = 0x01"

text \<open>
  The two constants below are declared outside these sources; their values are the INS
  and P1 columns of the protocol tables in the doc comments of
  \<open>ledgerSignTypedData\<close> and \<open>ledgerSignPersonalMessage\<close>.
\<close>

definition ledgerOpSignTypedMessage :: byte where "ledgerOpSignTypedMessage = 0x0c"
definition ledgerP1InitTransactionData :: byte where "ledgerP1InitTransactionData = 0x00"

definition flatten_path :: "32 word list \<Rightarrow> byte list" where
  "flatten_path derivationPath = of_nat (length derivationPath) # concat (map be32 derivationPath)"

definition ledgerSignPersonalMessage ::
  "'s device \<Rightarrow> 's session \<Rightarrow> 32 word list \<Rightarrow> byte list \<Rightarrow> (error + byte list) \<times> 's session" where
  "ledgerSignPersonalMessage ex ses derivationPath text =
     (let payload = flatten_path derivationPath @ be32 (of_nat (length text)) @ text
      in case ledgerExchange ex ses
                (ledgerOpSignPersonalMessage, ledgerP1InitTransactionData, 0, payload) of
           (Inl e, ses') \<Rightarrow> (Inl (Exchange e), ses')
         | (Inr reply, ses') \<Rightarrow>
             if length reply \<noteq> 65 then (Inl ReplyLacksSignature, ses')
             else (Inr (tl reply @ [hd reply]), ses'))"

definition version_too_old :: "byte \<times> byte \<times> byte \<Rightarrow> bool" where
  "version_too_old v = (case v of (v0, v1, v2) \<Rightarrow> v0 < 1 \<and> v1 < 5)"

definition ledger_SignText ::
  "'s device \<Rightarrow> ledgerDriver \<Rightarrow> 's session \<Rightarrow> 32 word list \<Rightarrow> byte list \<Rightarrow>
   (error + byte list) \<times> 's session" where
  "ledger_SignText ex w ses path text =
     (if offline w then (Inl ErrWalletClosed, ses)
      else if version_too_old (version w)
      then (case version w of (v0, v1, v2) \<Rightarrow> (Inl (LedgerVersionRequired v0 v1 v2), ses))
      else ledgerSignPersonalMessage ex ses path text)"

definition dataType_byte :: "dataType \<Rightarrow> byte" where
  "dataType_byte dt =
     (case dt of CustomType \<Rightarrow> 0 | IntType \<Rightarrow> 1 | UintType \<Rightarrow> 2 | AddressType \<Rightarrow> 3
      | BoolType \<Rightarrow> 4 | StringType \<Rightarrow> 5 | FixedBytesType \<Rightarrow> 6 | BytesType \<Rightarrow> 7)"

definition sendField ::
  "'s device \<Rightarrow> TypedData \<Rightarrow> 's session \<Rightarrow> apitype \<Rightarrow> error option \<times> 's session" where
  "sendField ex data ses field =
     (case parseType data field of
        Inl e \<Rightarrow> (Some e, ses)
      | Inr (dt, name, byteLength, arrays) \<Rightarrow>
          (let sized = (dt = IntType \<or> dt = UintType \<or> dt = FixedBytesType);
               typeName = (if dt = CustomType then of_nat (length name) # bytes_of name else []);
               typeSize = (if sized then [of_nat byteLength] else []);
               arrayLevels =
                 (if arrays \<noteq> []
                  then of_nat (length arrays) #
                       concat (map (\<lambda>l. case l of None \<Rightarrow> [0] | Some n \<Rightarrow> [1, of_nat n]) arrays)
                  else []);
               typeDesc = dataType_byte dt OR (if sized then 0x40 else 0)
                            OR (if arrays \<noteq> [] then 0x80 else 0);
               payload = [typeDesc] @ typeName @ typeSize @ arrayLevels
                           @ [of_nat (length (Name field))] @ bytes_of (Name field)
           in case ledgerExchange ex ses
                     (ledgerOpEip712SendStructDef, 0, ledgerP2StructField, payload) of
                (Inl e, ses') \<Rightarrow> (Some (Exchange e), ses')
              | (Inr _, ses') \<Rightarrow> (None, ses')))"

text \<open>The leaf encoding of \<open>sendValue\<close>: the type switch on the value.\<close>

definition ledger_encode :: "string \<Rightarrow> string \<Rightarrow> gvalue \<Rightarrow> error + byte list" where
  "ledger_encode t name val =
     (case val of
        VString v \<Rightarrow>
          if t = ''string'' then Inr (bytes_of v)
          else if prefix ''0x'' v
          then (case hex_DecodeString (drop 2 v) of
                  (bs, ok) \<Rightarrow> if ok then Inr bs else Inl (HexDecodeFailed name))
          else Inl (InvalidStringValue name v)
      | VBool v \<Rightarrow> Inr [if v then 1 else 0]
      | VFloat v \<Rightarrow> Inr (int64_Bytes v)
      | VHex None \<Rightarrow> Inl (NilValue name)
      | VHex (Some h) \<Rightarrow> Inr (big_Bytes (nat \<bar>h\<bar>))
      | _ \<Rightarrow> Inl (UnsupportedValueType name))"

lemma size_map_get: "size (map_get m k) < size (VMap m)"
proof (induction m)
  case Nil
  then show ?case by (simp add: map_get_def)
next
  case (Cons kv m)
  then show ?case by (cases kv) (auto simp: map_get_def split: option.splits)
qed

lemma size_map_get_less:
  "2 * size (map_get m k) < Suc (2 * size_list (size_prod (\<lambda>x. 0) size) m)"
  using size_map_get [of m k] by simp

function sendValue ::
    "'s device \<Rightarrow> TypedData \<Rightarrow> 's session \<Rightarrow> string \<Rightarrow> string \<Rightarrow> gvalue \<Rightarrow>
     error option \<times> 's session"
  and sendItems ::
    "'s device \<Rightarrow> TypedData \<Rightarrow> 's session \<Rightarrow> string \<Rightarrow> string \<Rightarrow> gvalue list \<Rightarrow>
     error option \<times> 's session"
  and sendFields ::
    "'s device \<Rightarrow> TypedData \<Rightarrow> 's session \<Rightarrow> apitype list \<Rightarrow> (string \<times> gvalue) list \<Rightarrow>
     error option \<times> 's session"
where
  "sendValue ex data ses t name val =
     (if val = VNil then (Some (NilValue name), ses)
      else if suffix '']'' t then
        (case val of
           VArray a \<Rightarrow>
             (case ledgerExchange ex ses
                     (ledgerOpEip712SendStructImpl, ledgerP1CompleteSend, ledgerP2Array,
                      [of_nat (length a)]) of
                (Inl e, ses') \<Rightarrow> (Some (Wrap ''failed to send array length'' (Exchange e)), ses')
              | (Inr _, ses') \<Rightarrow>
                  if CHR ''['' \<notin> set t then (Some (Panic SliceOutOfRange), ses')
                  else sendItems ex data ses'
                         (rev (tl (dropWhile (\<lambda>c. c \<noteq> CHR ''['') (rev t)))) name a)
         | _ \<Rightarrow> (Some (ExpectedArray name), ses))
      else
        (case types_get data t of
           Some s \<Rightarrow>
             (case val of
                VMap m \<Rightarrow> sendFields ex data ses s m
              | _ \<Rightarrow> (Some (ExpectedStruct name), ses))
         | None \<Rightarrow>
             (case ledger_encode t name val of
                Inl e \<Rightarrow> (Some e, ses)
              | Inr enc \<Rightarrow>
                  (case ledgerExchange ex ses
                          (ledgerOpEip712SendStructImpl, ledgerP1CompleteSend,
                           ledgerP2StructField, be16 (of_nat (length enc)) @ enc) of
                     (Inl e, ses') \<Rightarrow>
                       (Some (Wrap (''failed to send domain field '' @ name) (Exchange e)), ses')
                   | (Inr _, ses') \<Rightarrow> (None, ses')))))"
| "sendItems ex data ses t name [] = (None, ses)"
| "sendItems ex data ses t name (item # items) =
     (case sendValue ex data ses t name item of
        (Some e, ses') \<Rightarrow> (Some (Wrap ''failed to send array item'' e), ses')
      | (None, ses') \<Rightarrow> sendItems ex data ses' t name items)"
| "sendFields ex data ses [] m = (None, ses)"
| "sendFields ex data ses (field # fs) m =
     (case sendValue ex data ses (Type field) (Name field) (map_get m (Name field)) of
        (Some e, ses') \<Rightarrow> (Some (Wrap (''failed to send struct field '' @ Name field) e), ses')
      | (None, ses') \<Rightarrow> sendFields ex data ses' fs m)"
  by pat_completeness auto
termination
  by (relation "inv_image (less_than <*lex*> less_than)
    (\<lambda>x. case x of
       Inl (ex, data, ses, t, name, val) \<Rightarrow> (2 * size val + 1, 0)
     | Inr (Inl (ex, data, ses, t, name, items)) \<Rightarrow> (2 * size_list size items + 2, 0)
     | Inr (Inr (ex, data, ses, fs, m)) \<Rightarrow> (2 * size (VMap m), length fs))")
    (auto simp: size_map_get_less)

declare sendValue.simps [simp del]


text \<open>
  The first phase ranges over the Go map \<open>data.Types\<close>, in an order the language leaves
  open: the order of the association list stands for the order of that run.
\<close>

fun sendFieldDefs ::
  "'s device \<Rightarrow> TypedData \<Rightarrow> 's session \<Rightarrow> apitype list \<Rightarrow> error option \<times> 's session" where
  "sendFieldDefs ex data ses [] = (None, ses)"
| "sendFieldDefs ex data ses (field # fs) =
     (case sendField ex data ses field of
        (Some e, ses') \<Rightarrow> (Some (Wrap (''failed to send field '' @ Name field) e), ses')
      | (None, ses') \<Rightarrow> sendFieldDefs ex data ses' fs)"

fun sendStructDefs ::
  "'s device \<Rightarrow> TypedData \<Rightarrow> 's session \<Rightarrow> (string \<times> apitype list option) list \<Rightarrow>
   error option \<times> 's session" where
  "sendStructDefs ex data ses [] = (None, ses)"
| "sendStructDefs ex data ses ((name, fs) # rest) =
     (case ledgerExchange ex ses
             (ledgerOpEip712SendStructDef, 0, ledgerP2StructName, bytes_of name) of
        (Inl e, ses') \<Rightarrow> (Some (Wrap (''failed to send type name '' @ name) (Exchange e)), ses')
      | (Inr _, ses') \<Rightarrow>
          (case sendFieldDefs ex data ses' (case fs of None \<Rightarrow> [] | Some l \<Rightarrow> l) of
             (Some e, ses'') \<Rightarrow> (Some e, ses'')
           | (None, ses'') \<Rightarrow> sendStructDefs ex data ses'' rest))"

text \<open>Everything \<open>ledgerSignTypedData\<close> sends before the signing request.\<close>

definition sendDefsAndValues ::
  "'s device \<Rightarrow> TypedData \<Rightarrow> 's session \<Rightarrow> error option \<times> 's session" where
  "sendDefsAndValues ex data ses =
     (case sendStructDefs ex data ses (Types data) of
        (Some e, ses1) \<Rightarrow> (Some e, ses1)
      | (None, ses1) \<Rightarrow>
     (case ledgerExchange ex ses1
             (ledgerOpEip712SendStructImpl, ledgerP1CompleteSend, ledgerP2RootStruct,
              bytes_of ''EIP712Domain'') of
        (Inl e, ses2) \<Rightarrow> (Some (Wrap ''failed to send domain type name'' (Exchange e)), ses2)
      | (Inr _, ses2) \<Rightarrow>
     (case sendValue ex data ses2 ''EIP712Domain'' ''domain'' (VMap (Domain data)) of
        (Some e, ses3) \<Rightarrow> (Some (Wrap ''failed to send domain fields'' e), ses3)
      | (None, ses3) \<Rightarrow>
     (case ledgerExchange ex ses3
             (ledgerOpEip712SendStructImpl, ledgerP1CompleteSend, ledgerP2RootStruct,
              bytes_of (PrimaryType data)) of
        (Inl e, ses4) \<Rightarrow> (Some (Wrap ''failed to send primary type name'' (Exchange e)), ses4)
      | (Inr _, ses4) \<Rightarrow>
     (case sendValue ex data ses4 (PrimaryType data) ''message'' (VMap (Message data)) of
        (Some e, ses5) \<Rightarrow> (Some (Wrap ''failed to send primary type fields'' e), ses5)
      | (None, ses5) \<Rightarrow> (None, ses5))))))"

definition ledgerSignTypedData ::
  "'s device \<Rightarrow> 's session \<Rightarrow> 32 word list \<Rightarrow> TypedData \<Rightarrow> (error + byte list) \<times> 's session" where
  "ledgerSignTypedData ex ses derivationPath data =
     (if types_get data ''EIP712Domain'' = None then (Inl DomainTypeRequired, ses)
      else if types_get data (PrimaryType data) = None
      then (Inl (PrimaryTypeNotFound (PrimaryType data)), ses)
      else
        (case sendDefsAndValues ex data ses of
           (Some e, ses') \<Rightarrow> (Inl e, ses')
         | (None, ses') \<Rightarrow>
             (case ledgerExchange ex ses'
                     (ledgerOpSignTypedMessage, 0, ledgerP2FullImplementation,
                      flatten_path derivationPath) of
                (Inl e, ses'') \<Rightarrow> (Inl (Exchange e), ses'')
              | (Inr reply, ses'') \<Rightarrow>
                  if length reply \<noteq> 65 then (Inl (InvalidSignatureLength (length reply)), ses'')
                  else (Inr (tl reply @ [hd reply]), ses''))))"

definition ledger_SignedTypedData ::
  "'s device \<Rightarrow> ledgerDriver \<Rightarrow> 's session \<Rightarrow> 32 word list \<Rightarrow> TypedData \<Rightarrow>
   (error + byte list) \<times> 's session" where
  "ledger_SignedTypedData ex w ses path data =
     (if offline w then (Inl ErrWalletClosed, ses)
      else if version_too_old (version w)
      then (case version w of (v0, v1, v2) \<Rightarrow> (Inl (LedgerVersionRequired v0 v1 v2), ses))
      else ledgerSignTypedData ex ses path data)"

section \<open>Family B: the Trezor driver\<close>

text \<open>The leaf encoding of a value query: the switch on the resolved type.\<close>

definition trezor_encode :: "dataType \<Rightarrow> string \<Rightarrow> nat \<Rightarrow> gvalue \<Rightarrow> error + byte list" where
  "trezor_encode dt name byteLength nextValue =
     (case dt of
        CustomType \<Rightarrow> Inl (CannotEncodeCustom name)
      | BoolType \<Rightarrow>
          (case nextValue of VBool b \<Rightarrow> Inr [if b then 1 else 0] | _ \<Rightarrow> Inl ExpectedBool)
      | StringType \<Rightarrow>
          (case nextValue of VString str \<Rightarrow> Inr (bytes_of str) | _ \<Rightarrow> Inl ExpectedString)
      | BytesType \<Rightarrow>
          (case nextValue of VString str \<Rightarrow> Inr (FromHex str) | _ \<Rightarrow> Inl ExpectedBytes)
      | _ \<Rightarrow>
          (let val = (case nextValue of
                        VString str \<Rightarrow> FromHex str
                      | VFloat f \<Rightarrow> int64_Bytes f
                      | _ \<Rightarrow> [])
           in if length val > byteLength then Inl (ValueTooLong (length val) byteLength)
              else Inr (replicate (byteLength - length val) 0 @ val)))"

text \<open>
  The inner loop of a value query, over the array levels of the field's type: \<open>j\<close> counts
  the levels left and the path is \<open>MemberPath[i:]\<close>; a step reads \<open>MemberPath[i+1]\<close>.
  \<open>reflect.TypeOf\<close> of a nil value is nil, and its \<open>Kind()\<close> a nil dereference.
\<close>

fun array_descent ::
  "nat \<Rightarrow> gvalue \<Rightarrow> 32 word list \<Rightarrow> error + (gvalue \<times> 32 word list)" where
  "array_descent (Suc j) nextValue (p # q # rest) =
     (if nextValue = VNil then Inl (Panic NilDereference)
      else
        (case elements nextValue of
           None \<Rightarrow> Inl ExpectedArrayAt
         | Some a \<Rightarrow>
             if unat q \<ge> length a then Inl (InvalidArrayIndex q)
             else array_descent j (a ! unat q) (q # rest)))"
| "array_descent j nextValue path = Inr (nextValue, path)"

lemma array_descent_length:
  "array_descent j v path = Inr (v', path') \<Longrightarrow> length path' \<le> length path"
  by (induction j v path rule: array_descent.induct)
     (auto split: option.splits if_splits)

text \<open>
  The outer loop of a value query, from \<open>i\<close> on: the path is \<open>MemberPath[i:]\<close>. The
  result is the reply value and the nested-array flag. A value of kind map that is no
  \<open>apitypes.TypedDataMessage\<close> passes the test of its kind and fails the type assertion
  that follows, which panics.
\<close>

function resolve_path ::
  "TypedData \<Rightarrow> apitype list option \<Rightarrow> (string \<times> gvalue) list \<Rightarrow> bool \<Rightarrow> 32 word list \<Rightarrow>
   error + (byte list \<times> bool)" where
  "resolve_path data structType structValue nestedArray [] = Inr ([], nestedArray)"
| "resolve_path data structType structValue nestedArray (p # rest) =
     (case structType of
        None \<Rightarrow> Inl NoStructType
      | Some fs \<Rightarrow>
          if unat p \<ge> length fs then Inl (InvalidFieldIndex p)
          else
            (case parseType data (fs ! unat p) of
               Inl e \<Rightarrow> Inl e
             | Inr (dt, name, byteLength, arrays) \<Rightarrow>
                 (case array_descent (length arrays)
                         (map_get structValue (Name (fs ! unat p))) (p # rest) of
                    Inl e \<Rightarrow> Inl e
                  | Inr (nextValue, path) \<Rightarrow>
                      if nextValue = VNil then Inl (Panic NilDereference)
                      else if length path > 1 then
                        (case nextValue of
                           VMap m \<Rightarrow>
                             resolve_path data (types_get data name) m
                               (nestedArray \<or> length arrays > 1) (tl path)
                         | VOtherMap \<Rightarrow> Inl (Panic TypeAssertion)
                         | _ \<Rightarrow> Inl ExpectedMapAt)
                      else
                        (case elements nextValue of
                           Some a \<Rightarrow>
                             Inr (be16 (of_nat (length a)), nestedArray \<or> length arrays > 1)
                         | None \<Rightarrow>
                             (case trezor_encode dt name byteLength nextValue of
                                Inl e \<Rightarrow> Inl e
                              | Inr val \<Rightarrow> Inr (val, nestedArray \<or> length arrays > 1))))))"
  by pat_completeness auto
termination
  by (relation "measure (\<lambda>(data, structType, structValue, nestedArray, path). length path)")
     (auto dest!: array_descent_length)

text \<open>Case 2 of the loop: \<open>MemberPath[0]\<close> is read with no check of the length.\<close>

definition value_query :: "TypedData \<Rightarrow> 32 word list \<Rightarrow> error + (byte list \<times> bool)" where
  "value_query data MemberPath =
     (case MemberPath of
        [] \<Rightarrow> Inl (Panic IndexOutOfRange)
      | p0 # rest \<Rightarrow>
          if p0 = 0
          then resolve_path data (types_get data ''EIP712Domain'') (Domain data) False rest
          else resolve_path data (types_get data (PrimaryType data)) (Message data) False rest)"

subsection \<open>The navigation of a member path in the words of the specification\<close>

text \<open>
  The navigation in arrays as the specification words it: each index after the field's
  selects an element by its index in the current array, and an index at or beyond the
  length of the array fails. \<open>select_elements v qs\<close> is the element that the indices
  \<open>qs\<close> select in \<open>v\<close>, one array level per index.
\<close>

fun select_elements :: "gvalue \<Rightarrow> 32 word list \<Rightarrow> error + gvalue" where
  "select_elements v [] = Inr v"
| "select_elements v (q # qs) =
     (if v = VNil then Inl (Panic NilDereference)
      else
        (case elements v of
           None \<Rightarrow> Inl ExpectedArrayAt
         | Some a \<Rightarrow>
             if length a \<le> unat q then Inl (InvalidArrayIndex q)
             else select_elements (a ! unat q) qs))"

text \<open>
  The fields that the resolution of a member path reads, in the order of the path: the
  field at the index, and, when indices are left after those of the field's array levels,
  the fields read in the struct that they lead to.
\<close>

function fields_read ::
  "TypedData \<Rightarrow> apitype list option \<Rightarrow> (string \<times> gvalue) list \<Rightarrow> 32 word list \<Rightarrow> apitype list" where
  "fields_read data structType structValue [] = []"
| "fields_read data structType structValue (p # rest) =
     (case structType of
        None \<Rightarrow> []
      | Some fs \<Rightarrow>
          if length fs \<le> unat p then []
          else
            fs ! unat p #
            (case parseType data (fs ! unat p) of
               Inl e \<Rightarrow> []
             | Inr (dt, name, w, arrays) \<Rightarrow>
                 if drop (length arrays) rest = [] then []
                 else
                   (case select_elements (map_get structValue (Name (fs ! unat p)))
                           (take (length arrays) rest) of
                      Inr (VMap m) \<Rightarrow>
                        fields_read data (types_get data name) m (drop (length arrays) rest)
                    | _ \<Rightarrow> [])))"
  by pat_completeness auto
termination
  by (relation "measure (\<lambda>(data, structType, structValue, path). length path)") auto

definition more_than_one_dimension :: "TypedData \<Rightarrow> apitype \<Rightarrow> bool" where
  "more_than_one_dimension data field =
     (case parseType data field of
        Inl e \<Rightarrow> False
      | Inr (dt, name, w, arrays) \<Rightarrow> 1 < length arrays)"

definition query_fields :: "TypedData \<Rightarrow> 32 word list \<Rightarrow> apitype list" where
  "query_fields data MemberPath =
     (case MemberPath of
        [] \<Rightarrow> []
      | p0 # rest \<Rightarrow>
          if p0 = 0
          then fields_read data (types_get data ''EIP712Domain'') (Domain data) rest
          else fields_read data (types_get data (PrimaryType data)) (Message data) rest)"


text \<open>
  The messages of the interactive protocol. \<open>trezorExchange\<close>, \<open>SignTypedHash\<close> and the
  protobuf types are not part of these sources, and \<open>apitypes.TypedDataAndHash\<close> is a
  library function: the hashing and the hash-signing path are parameters, and the device
  is the list of the outcomes of the successive exchanges, each an error or the message
  whose index \<open>trezorExchange\<close> returns (0 a signature, 1 a struct request, 2 a value
  request). The loop has not returned when that list is used up: its outcome is
  \<open>None\<close> then.
\<close>

datatype EthereumDataType = Ack_UINT | Ack_INT | Ack_BYTES | Ack_STRING | Ack_BOOL | Ack_ADDRESS | Ack_ARRAY | Ack_STRUCT

datatype EthereumFieldType =
  EthereumFieldType EthereumDataType "32 word option" "EthereumFieldType option" "string option"

datatype trezor_request =
    EthereumSignTypedData "32 word list" string "byte list"
  | EthereumTypedDataStructAck "(string \<times> EthereumFieldType) list"
  | EthereumTypedDataValueAck "byte list"

datatype trezor_response =
    EthereumTypedDataSignature "byte list"
  | EthereumTypedDataStructRequest string
  | EthereumTypedDataValueRequest "32 word list"
  | OtherResponse nat

record trezorDriver =
  device :: bool
  tversion :: "32 word \<times> 32 word \<times> 32 word"

text \<open>The failure code of the Trezor protobuf definitions for a firmware error.\<close>

definition Failure_FirmwareError :: nat where
  "Failure_FirmwareError = 99"

definition is_firmware_failure :: "exchange_error \<Rightarrow> bool" where
  "is_firmware_failure err =
     (case err of TrezorFailure (Some code) \<Rightarrow> code = Failure_FirmwareError | _ \<Rightarrow> False)"

definition base_field_type :: "TypedData \<Rightarrow> dataType \<Rightarrow> string \<Rightarrow> nat \<Rightarrow> EthereumFieldType" where
  "base_field_type data dt name byteLength =
     (case dt of
        CustomType \<Rightarrow>
          EthereumFieldType Ack_STRUCT
            (Some (of_nat (length (case types_get data name of None \<Rightarrow> [] | Some l \<Rightarrow> l))))
            None (Some name)
      | IntType \<Rightarrow> EthereumFieldType Ack_INT (Some (of_nat byteLength)) None None
      | UintType \<Rightarrow> EthereumFieldType Ack_UINT (Some (of_nat byteLength)) None None
      | AddressType \<Rightarrow> EthereumFieldType Ack_ADDRESS None None None
      | BoolType \<Rightarrow> EthereumFieldType Ack_BOOL None None None
      | StringType \<Rightarrow> EthereumFieldType Ack_STRING None None None
      | FixedBytesType \<Rightarrow> EthereumFieldType Ack_BYTES (Some (of_nat byteLength)) None None
      | BytesType \<Rightarrow> EthereumFieldType Ack_BYTES None None None)"

text \<open>The array levels are wrapped from the last one (outermost) to the first.\<close>

fun array_field_type :: "nat option list \<Rightarrow> EthereumFieldType \<Rightarrow> EthereumFieldType" where
  "array_field_type [] inner = inner"
| "array_field_type (a # as) inner =
     EthereumFieldType Ack_ARRAY (map_option of_nat a) (Some (array_field_type as inner)) None"

fun struct_members ::
  "TypedData \<Rightarrow> apitype list \<Rightarrow> error + (string \<times> EthereumFieldType) list" where
  "struct_members data [] = Inr []"
| "struct_members data (field # fs) =
     (case parseType data field of
        Inl e \<Rightarrow> Inl e
      | Inr (dt, name, byteLength, arrays) \<Rightarrow>
          (case struct_members data fs of
             Inl e \<Rightarrow> Inl e
           | Inr ms \<Rightarrow>
               Inr ((Name field,
                     array_field_type (rev arrays) (base_field_type data dt name byteLength))
                    # ms)))"

text \<open>Case 1 of the loop.\<close>

definition struct_query :: "TypedData \<Rightarrow> string \<Rightarrow> error + trezor_request" where
  "struct_query data name =
     (case types_get data name of
        None \<Rightarrow> Inl (NoFieldsForStruct name)
      | Some fs \<Rightarrow>
          if length fs = 0 then Inl (NoFieldsForStruct name)
          else (case struct_members data fs of
                  Inl e \<Rightarrow> Inl e
                | Inr ms \<Rightarrow> Inr (EthereumTypedDataStructAck ms)))"

text \<open>
  The loop of \<open>SignedTypedData\<close>: the request to send, the nested-array flag, the
  outcomes of the exchanges to come and the requests sent so far.
\<close>

fun trezor_loop ::
  "TypedData \<Rightarrow> trezor_request \<Rightarrow> bool \<Rightarrow> (exchange_error + trezor_response) list \<Rightarrow>
   trezor_request list \<Rightarrow> (error + byte list) option \<times> trezor_request list" where
  "trezor_loop data req nestedArray [] log = (None, log @ [req])"
| "trezor_loop data req nestedArray (r # rs) log =
     (case r of
        Inl err \<Rightarrow>
          if nestedArray \<and> is_firmware_failure err
          then (Some (Inl (NestedArraysUnsupported err)), log @ [req])
          else (Some (Inl (Exchange err)), log @ [req])
      | Inr (EthereumTypedDataSignature signature) \<Rightarrow> (Some (Inr signature), log @ [req])
      | Inr (EthereumTypedDataStructRequest name) \<Rightarrow>
          (case struct_query data name of
             Inl e \<Rightarrow> (Some (Inl e), log @ [req])
           | Inr ack \<Rightarrow> trezor_loop data ack False rs (log @ [req]))
      | Inr (EthereumTypedDataValueRequest MemberPath) \<Rightarrow>
          (case value_query data MemberPath of
             Inl e \<Rightarrow> (Some (Inl e), log @ [req])
           | Inr (val, nested) \<Rightarrow>
               trezor_loop data (EthereumTypedDataValueAck val) nested rs (log @ [req]))
      | Inr (OtherResponse n) \<Rightarrow> (Some (Inl (UnexpectedReplyIndex n)), log @ [req]))"

definition trezor_SignedTypedData ::
  "(TypedData \<Rightarrow> string + string) \<Rightarrow>
   (32 word list \<Rightarrow> byte list \<Rightarrow> byte list \<Rightarrow> error + byte list) \<Rightarrow>
   trezorDriver \<Rightarrow> 32 word list \<Rightarrow> TypedData \<Rightarrow> (exchange_error + trezor_response) list \<Rightarrow>
   (error + byte list) option \<times> trezor_request list" where
  "trezor_SignedTypedData TypedDataAndHash SignTypedHash w path data replies =
     (if \<not> device w then (Some (Inl ErrWalletClosed), [])
      else
        (case TypedDataAndHash data of
           Inl msg \<Rightarrow> (Some (Inl (HashingError msg)), [])
         | Inr hashes \<Rightarrow>
             if length hashes < 66 then (Some (Inl (Panic SliceOutOfRange)), [])
             else
               (let domainHash = take 32 (drop 2 hashes);
                    messageHash = take 32 (drop 34 hashes)
                in if fst (tversion w) = 1
                   then (Some (SignTypedHash path (bytes_of domainHash) (bytes_of messageHash)), [])
                   else trezor_loop data
                          (EthereumSignTypedData path (PrimaryType data) (bytes_of messageHash))
                          False replies [])))"

text \<open>\<open>SignText\<close> of the Trezor driver makes one exchange, whose outcome is \<open>reply\<close>.\<close>

definition trezor_SignText ::
  "trezorDriver \<Rightarrow> exchange_error + byte list \<Rightarrow> error + byte list" where
  "trezor_SignText w reply =
     (if \<not> device w then Inl ErrWalletClosed
      else (case reply of Inl err \<Rightarrow> Inl (Exchange err) | Inr signature \<Rightarrow> Inr signature))"

section \<open>Example documents and devices\<close>

definition doc_empty :: TypedData where
  "doc_empty = \<lparr>Types = [], PrimaryType = ''Mail'', Domain = [], Message = []\<rparr>"

definition doc_uint :: TypedData where
  "doc_uint = \<lparr>Types = [(''uint'', Some [\<lparr>Name = ''x'', Type = ''bool''\<rparr>])],
                PrimaryType = ''uint'', Domain = [], Message = []\<rparr>"

definition doc_mail :: TypedData where
  "doc_mail =
     \<lparr>Types = [(''EIP712Domain'', Some []),
               (''Mail'', Some [\<lparr>Name = ''from'', Type = ''string''\<rparr>,
                                \<lparr>Name = ''to'', Type = ''string''\<rparr>])],
      PrimaryType = ''Mail'', Domain = [],
      Message = [(''from'', VString ''x''), (''to'', VString ''y'')]\<rparr>"

definition accepting_device :: "unit device" where
  "accepting_device s a = (Inr [], s)"

definition fresh_session :: "unit session" where
  "fresh_session = \<lparr>dev = (), sent = []\<rparr>"

definition doc_no_primary :: TypedData where
  "doc_no_primary =
     \<lparr>Types = [(''EIP712Domain'', Some [])], PrimaryType = ''Mail'', Domain = [], Message = []\<rparr>"

definition doc_ab :: TypedData where
  "doc_ab =
     \<lparr>Types = [(''EIP712Domain'', Some []),
               (''S'', Some [\<lparr>Name = ''a'', Type = ''uint8''\<rparr>, \<lparr>Name = ''b'', Type = ''string''\<rparr>])],
      PrimaryType = ''S'', Domain = [],
      Message = [(''a'', VFloat 5), (''b'', VString ''hi'')]\<rparr>"

definition doc_u256 :: TypedData where
  "doc_u256 =
     \<lparr>Types = [(''EIP712Domain'', Some []), (''M'', Some [\<lparr>Name = ''x'', Type = ''uint256''\<rparr>])],
      PrimaryType = ''M'', Domain = [], Message = [(''x'', VFloat 5)]\<rparr>"

definition doc_grid :: TypedData where
  "doc_grid =
     \<lparr>Types = [(''EIP712Domain'', Some []), (''M'', Some [\<lparr>Name = ''m'', Type = ''uint8[][]''\<rparr>])],
      PrimaryType = ''M'', Domain = [], Message = [(''m'', VArray [VArray [VFloat 1]])]\<rparr>"

definition doc_group :: TypedData where
  "doc_group =
     \<lparr>Types = [(''EIP712Domain'', Some []),
               (''Group'', Some [\<lparr>Name = ''owner'', Type = ''Person''\<rparr>,
                                 \<lparr>Name = ''members'', Type = ''Person[]''\<rparr>,
                                 \<lparr>Name = ''grid'', Type = ''uint8[][]''\<rparr>,
                                 \<lparr>Name = ''scores'', Type = ''uint8[]''\<rparr>]),
               (''Person'', Some [\<lparr>Name = ''name'', Type = ''string''\<rparr>])],
      PrimaryType = ''Group'', Domain = [],
      Message = [(''owner'', VMap [(''name'', VString ''x'')]),
                 (''members'', VArray [VMap [(''name'', VString ''y'')]]),
                 (''grid'', VArray [VArray [VFloat 1, VFloat 2]]),
                 (''scores'', VArray [VFloat 7])]\<rparr>"

definition signing_device :: "unit device" where
  "signing_device s a = (Inr (1 # replicate 32 2 @ replicate 32 3), s)"

definition digest_example :: string where
  "digest_example = ''01ddddddddddddddddddddddddddddddddmmmmmmmmmmmmmmmmmmmmmmmmmmmmmmmm''"

section \<open>Evaluation rules\<close>

lemmas parse_eval =
  parseType_def TrimSpace_def trim_left.simps trim_right.simps ws_runes_def is_digit_def
  atoi_def digit_val_def max_int_def FindStringSubmatch_def nameToType_def types_get_def
  Let_def suffix_to_prefix

lemmas ledger_consts =
  ledgerOpSignPersonalMessage_def ledgerOpEip712SendStructDef_def ledgerOpEip712SendStructImpl_def
  ledgerP1CompleteSend_def ledgerP2StructName_def ledgerP2RootStruct_def ledgerP2Array_def
  ledgerP2StructField_def ledgerP2FullImplementation_def ledgerOpSignTypedMessage_def
  ledgerP1InitTransactionData_def

section \<open>The type resolver: properties\<close>

lemma FindAll_no_bracket: "CHR ''['' \<notin> set s \<Longrightarrow> FindAllStringSubmatch s = []"
  by (induction s) auto

lemma digit_not_bracket: "is_digit c \<Longrightarrow> c \<noteq> CHR ''['' \<and> c \<noteq> CHR 0x0A"
  by (auto simp: is_digit_def)

lemma digits_no_bracket: "list_all is_digit ds \<Longrightarrow> CHR ''['' \<notin> set ds \<and> CHR 0x0A \<notin> set ds"
  by (induction ds) (auto dest: digit_not_bracket)

lemma lazy_prefix_digits:
  "list_all is_digit ds \<Longrightarrow> xs = [] \<or> \<not> is_digit (last xs) \<Longrightarrow>
   lazy_prefix pre (xs @ ds) = (pre @ xs, ds)"
proof (induction xs arbitrary: pre)
  case Nil
  then show ?case by (cases ds) auto
next
  case (Cons x xs)
  from Cons.prems(2) have nd: "\<not> is_digit (last (x # xs))" by simp
  have "last (x # xs) \<in> set (x # xs @ ds)" by (cases xs rule: rev_cases) auto
  with nd have "\<not> list_all is_digit (x # xs @ ds)"
    unfolding list_all_iff by blast
  moreover have "xs = [] \<or> \<not> is_digit (last xs)" using nd by auto
  ultimately show ?case using Cons.IH [OF Cons.prems(1), of "pre @ [x]"] by simp
qed

lemma ws_last_not_digit: "w \<in> set ws_runes \<Longrightarrow> w \<noteq> [] \<and> \<not> is_digit (last w)"
  by (auto simp: ws_runes_def is_digit_def)

lemma suffix_last: "suffix w s \<Longrightarrow> w \<noteq> [] \<Longrightarrow> last w = last s"
  by (auto simp: suffix_def)

lemma trim_right_digit:
  assumes "s \<noteq> []" "is_digit (last s)"
  shows "trim_right s = s"
proof -
  have "List.find (\<lambda>w. suffix w s) ws_runes = None"
  proof (rule ccontr)
    assume "List.find (\<lambda>w. suffix w s) ws_runes \<noteq> None"
    then obtain w where "List.find (\<lambda>w. suffix w s) ws_runes = Some w" by auto
    then have "w \<in> set ws_runes" "suffix w s"
      by (auto simp: find_Some_iff)
    then show False using ws_last_not_digit suffix_last assms by metis
  qed
  then show ?thesis by (simp add: trim_right.simps [of s])
qed

lemma nameToType_names:
  "nameToType base = Some dt \<Longrightarrow>
   base \<in> set [''int'', ''uint'', ''address'', ''bool'', ''string'', ''bytes'']"
  by (auto simp: nameToType_def split: if_splits)

lemma find_prefix_base:
  "base \<in> set [''int'', ''uint'', ''address'', ''bool'', ''string'', ''bytes''] \<Longrightarrow>
   List.find (\<lambda>w. prefix w (base @ ds)) ws_runes = None"
  by (auto simp: ws_runes_def)

lemma trim_left_base: "nameToType base = Some dt \<Longrightarrow> trim_left (base @ ds) = base @ ds"
  by (simp add: trim_left.simps [of "base @ ds"] find_prefix_base [OF nameToType_names])

lemma base_shape:
  "base \<in> set [''int'', ''uint'', ''address'', ''bool'', ''string'', ''bytes''] \<Longrightarrow>
   base = hd base # tl base \<and> tl base \<noteq> [] \<and> \<not> is_digit (last (tl base))
     \<and> CHR 0x0A \<notin> set base \<and> CHR ''['' \<notin> set base"
  by (auto simp: is_digit_def)

lemma parse_base_digits:
  assumes b: "nameToType base = Some dt" and ds: "ds \<noteq> []" "list_all is_digit ds"
  shows "TrimSpace (base @ ds) = base @ ds"
    and "FindAllStringSubmatch (base @ ds) = []"
    and "FindStringSubmatch (base @ ds) = Some (base, ds)"
proof -
  have "is_digit (last (base @ ds))" using ds by (simp add: list_all_iff)
  then show "TrimSpace (base @ ds) = base @ ds"
    using ds by (simp add: TrimSpace_def trim_left_base [OF b] trim_right_digit)
  define c xs where "c = hd base" and "xs = tl base"
  then have sh: "base = c # xs" "xs \<noteq> []" "\<not> is_digit (last xs)"
      "CHR 0x0A \<notin> set base" "CHR ''['' \<notin> set base"
    using base_shape [OF nameToType_names [OF b]] by simp_all
  show "FindAllStringSubmatch (base @ ds) = []"
    using sh digits_no_bracket [OF ds(2)] by (intro FindAll_no_bracket) auto
  show "FindStringSubmatch (base @ ds) = Some (base, ds)"
    using sh digits_no_bracket [OF ds(2)] lazy_prefix_digits [OF ds(2), of xs "[c]"]
    by (simp add: FindStringSubmatch_def)
qed

lemma parseType_base_digits:
  assumes b: "nameToType base = Some dt" and ds: "ds \<noteq> []" "list_all is_digit ds"
    and t: "types_get data (base @ ds) = None"
  shows "parseType data \<lparr>Name = n, Type = base @ ds\<rparr> =
     (if dt = UintType \<or> dt = IntType then
        (if atoi ds mod 8 = 0 \<and> 1 \<le> atoi ds div 8 \<and> atoi ds div 8 \<le> 32
         then Inr (dt, base, atoi ds div 8, [])
         else Inl (InvalidLength (base @ ds) ds))
      else if dt = BytesType then
        (if 1 \<le> atoi ds \<and> atoi ds \<le> 32 then Inr (FixedBytesType, base, atoi ds, [])
         else Inl (InvalidLength (base @ ds) ds))
      else Inl (InvalidType (base @ ds)))"
  using b ds t parse_base_digits [OF b ds]
  by (auto simp: parseType_def Let_def)

lemma FindAll_append_no_bracket:
  "CHR ''['' \<notin> set nm \<Longrightarrow> FindAllStringSubmatch (nm @ sfx) = FindAllStringSubmatch sfx"
  by (induction nm) auto

lemma takeWhile_before_bracket:
  "CHR ''['' \<notin> set nm \<Longrightarrow> sfx \<noteq> [] \<Longrightarrow> hd sfx = CHR ''['' \<Longrightarrow>
   takeWhile (\<lambda>c. c \<noteq> CHR ''['') (nm @ sfx) = nm"
  by (cases sfx) (auto simp: takeWhile_append2 [where ys = "CHR ''['' # _"] takeWhile_tail)

lemma parseType_custom:
  assumes "TrimSpace t = nm @ sfx" and "CHR ''['' \<notin> set nm"
    and "sfx = [] \<or> hd sfx = CHR ''['' \<and> FindAllStringSubmatch sfx \<noteq> []"
    and "types_get data nm \<noteq> None"
  shows "parseType data \<lparr>Name = n, Type = t\<rparr>
         = Inr (CustomType, nm, 0,
                map (\<lambda>l. if l = [] then None else Some (atoi l)) (FindAllStringSubmatch sfx))"
proof (cases "sfx = []")
  case True
  then show ?thesis
    using assms FindAll_no_bracket [of nm] by (simp add: parseType_def Let_def)
next
  case False
  then have "hd sfx = CHR ''[''" and "FindAllStringSubmatch sfx \<noteq> []"
    using assms(3) by auto
  then show ?thesis
    using assms False FindAll_append_no_bracket [of nm sfx] takeWhile_before_bracket [of nm sfx]
    by (simp add: parseType_def Let_def)
qed

text \<open>
  C3, as stated, at a document that declares a struct named \<open>uint\<close>: the lookup of the
  stripped name among the declared structs comes first, and the field resolves to the
  custom type, not to \<open>(Uint, 32)\<close>.
\<close>

theorem parseType_struct_named_uint:
  "parseType doc_uint \<lparr>Name = ''f'', Type = ''uint''\<rparr> = Inr (CustomType, ''uint'', 0, [])
   \<and> parseType doc_uint \<lparr>Name = ''f'', Type = ''uint''\<rparr> \<noteq> Inr (UintType, ''uint'', 32, [])"
  by (simp add: doc_uint_def parseType_def TrimSpace_def trim_left.simps trim_right.simps
      ws_runes_def types_get_def Let_def suffix_to_prefix)

text \<open>
  C3 (amended): for every document and field, when the stripped name is a declared struct
  (with any list of fields, empty too) the type resolves to Custom, with that name,
  width 0 and the array levels of its suffixes: in general for a name \<open>nm\<close> without
  bracket followed by nothing or by bracket suffixes \<open>sfx\<close>, and in particular for a
  struct named \<open>uint\<close> and for \<open>Person[2][]\<close>. For every document that declares no
  struct under the stripped base name,
  \<open>uint\<close> resolves to (Uint, 32, no array level), \<open>uint8\<close> to (Uint, 1), \<open>bytes32\<close> to
  (FixedBytes, 32), \<open>bytes\<close> to (Bytes, 0), \<open>address\<close> to (Address, 20) and
  \<open>uint256[3][]\<close> to (Uint, 32, [fixed 3, dynamic]); \<open>uint7\<close> fails with the
  invalid-length error and \<open>foo\<close> with the unknown-type error. With any non-empty run of
  digits \<open>ds\<close>: \<open>int\<close> and \<open>uint\<close> fail with the invalid-length error when the
  number is no multiple of 8 or its eighth is outside [1, 32] and resolve to that width
  otherwise; \<open>bytes\<close> fails with it when the number is outside [1, 32] and resolves to
  FixedBytes of that width otherwise; \<open>address\<close>, \<open>bool\<close> and \<open>string\<close> fail with the
  invalid-type error.
\<close>

theorem parseType_resolves:
  "(types_get data ''uint'' = None \<longrightarrow>
      parseType data \<lparr>Name = n, Type = ''uint''\<rparr> = Inr (UintType, ''uint'', 32, []))
 \<and> (types_get data ''uint8'' = None \<longrightarrow>
      parseType data \<lparr>Name = n, Type = ''uint8''\<rparr> = Inr (UintType, ''uint'', 1, []))
 \<and> (types_get data ''bytes32'' = None \<longrightarrow>
      parseType data \<lparr>Name = n, Type = ''bytes32''\<rparr> = Inr (FixedBytesType, ''bytes'', 32, []))
 \<and> (types_get data ''bytes'' = None \<longrightarrow>
      parseType data \<lparr>Name = n, Type = ''bytes''\<rparr> = Inr (BytesType, ''bytes'', 0, []))
 \<and> (types_get data ''address'' = None \<longrightarrow>
      parseType data \<lparr>Name = n, Type = ''address''\<rparr> = Inr (AddressType, ''address'', 20, []))
 \<and> (types_get data ''uint256'' = None \<longrightarrow>
      parseType data \<lparr>Name = n, Type = ''uint256[3][]''\<rparr>
        = Inr (UintType, ''uint'', 32, [Some 3, None]))
 \<and> (types_get data ''uint7'' = None \<longrightarrow>
      parseType data \<lparr>Name = n, Type = ''uint7''\<rparr> = Inl (InvalidLength ''uint7'' ''7''))
 \<and> (types_get data ''foo'' = None \<longrightarrow>
      parseType data \<lparr>Name = n, Type = ''foo''\<rparr> = Inl (UnknownType ''foo''))
 \<and> (ds \<noteq> [] \<and> list_all is_digit ds \<and> types_get data (base @ ds) = None \<longrightarrow>
      (base = ''int'' \<or> base = ''uint'' \<longrightarrow>
         (atoi ds mod 8 \<noteq> 0 \<or> atoi ds div 8 < 1 \<or> 32 < atoi ds div 8 \<longrightarrow>
            parseType data \<lparr>Name = n, Type = base @ ds\<rparr> = Inl (InvalidLength (base @ ds) ds))
       \<and> (atoi ds mod 8 = 0 \<and> 1 \<le> atoi ds div 8 \<and> atoi ds div 8 \<le> 32 \<longrightarrow>
            parseType data \<lparr>Name = n, Type = base @ ds\<rparr>
              = Inr (if base = ''int'' then IntType else UintType, base, atoi ds div 8, [])))
    \<and> (base = ''bytes'' \<longrightarrow>
         (atoi ds < 1 \<or> 32 < atoi ds \<longrightarrow>
            parseType data \<lparr>Name = n, Type = base @ ds\<rparr> = Inl (InvalidLength (base @ ds) ds))
       \<and> (1 \<le> atoi ds \<and> atoi ds \<le> 32 \<longrightarrow>
            parseType data \<lparr>Name = n, Type = base @ ds\<rparr>
              = Inr (FixedBytesType, ''bytes'', atoi ds, [])))
    \<and> (base = ''address'' \<or> base = ''bool'' \<or> base = ''string'' \<longrightarrow>
         parseType data \<lparr>Name = n, Type = base @ ds\<rparr> = Inl (InvalidType (base @ ds))))
 \<and> (TrimSpace t = nm @ sfx \<and> CHR ''['' \<notin> set nm
      \<and> (sfx = [] \<or> hd sfx = CHR ''['' \<and> FindAllStringSubmatch sfx \<noteq> [])
      \<and> types_get data nm \<noteq> None \<longrightarrow>
      parseType data \<lparr>Name = n, Type = t\<rparr>
        = Inr (CustomType, nm, 0,
               map (\<lambda>l. if l = [] then None else Some (atoi l)) (FindAllStringSubmatch sfx)))
 \<and> (types_get data ''uint'' \<noteq> None \<longrightarrow>
      parseType data \<lparr>Name = n, Type = ''uint''\<rparr> = Inr (CustomType, ''uint'', 0, []))
 \<and> (types_get data ''Person'' \<noteq> None \<longrightarrow>
      parseType data \<lparr>Name = n, Type = ''Person[2][]''\<rparr>
        = Inr (CustomType, ''Person'', 0, [Some 2, None]))"
proof -
  have custom: "TrimSpace t = nm @ sfx \<and> CHR ''['' \<notin> set nm
      \<and> (sfx = [] \<or> hd sfx = CHR ''['' \<and> FindAllStringSubmatch sfx \<noteq> [])
      \<and> types_get data nm \<noteq> None \<longrightarrow>
      parseType data \<lparr>Name = n, Type = t\<rparr>
        = Inr (CustomType, nm, 0,
               map (\<lambda>l. if l = [] then None else Some (atoi l)) (FindAllStringSubmatch sfx))"
    using parseType_custom [of t nm sfx data n] by blast
  have trim: "TrimSpace ''uint'' = ''uint'' @ []" "TrimSpace ''Person[2][]'' = ''Person'' @ ''[2][]''"
    by (simp_all add: TrimSpace_def trim_left.simps trim_right.simps ws_runes_def
        suffix_to_prefix)
  have custom_uint: "types_get data ''uint'' \<noteq> None \<longrightarrow>
      parseType data \<lparr>Name = n, Type = ''uint''\<rparr> = Inr (CustomType, ''uint'', 0, [])"
    using parseType_custom [OF trim(1), of data n] by simp
  have custom_person: "types_get data ''Person'' \<noteq> None \<longrightarrow>
      parseType data \<lparr>Name = n, Type = ''Person[2][]''\<rparr>
        = Inr (CustomType, ''Person'', 0, [Some 2, None])"
    using parseType_custom [OF trim(2), of data n]
    by (simp add: is_digit_def atoi_def digit_val_def max_int_def)
  have fixed:
    "types_get data ''uint'' = None \<Longrightarrow>
       parseType data \<lparr>Name = n, Type = ''uint''\<rparr> = Inr (UintType, ''uint'', 32, [])"
    "types_get data ''uint8'' = None \<Longrightarrow>
       parseType data \<lparr>Name = n, Type = ''uint8''\<rparr> = Inr (UintType, ''uint'', 1, [])"
    "types_get data ''bytes32'' = None \<Longrightarrow>
       parseType data \<lparr>Name = n, Type = ''bytes32''\<rparr> = Inr (FixedBytesType, ''bytes'', 32, [])"
    "types_get data ''bytes'' = None \<Longrightarrow>
       parseType data \<lparr>Name = n, Type = ''bytes''\<rparr> = Inr (BytesType, ''bytes'', 0, [])"
    "types_get data ''address'' = None \<Longrightarrow>
       parseType data \<lparr>Name = n, Type = ''address''\<rparr> = Inr (AddressType, ''address'', 20, [])"
    "types_get data ''uint256'' = None \<Longrightarrow>
       parseType data \<lparr>Name = n, Type = ''uint256[3][]''\<rparr>
         = Inr (UintType, ''uint'', 32, [Some 3, None])"
    "types_get data ''uint7'' = None \<Longrightarrow>
       parseType data \<lparr>Name = n, Type = ''uint7''\<rparr> = Inl (InvalidLength ''uint7'' ''7'')"
    "types_get data ''foo'' = None \<Longrightarrow>
       parseType data \<lparr>Name = n, Type = ''foo''\<rparr> = Inl (UnknownType ''foo'')"
    by (simp_all add: parseType_def TrimSpace_def trim_left.simps trim_right.simps ws_runes_def
        is_digit_def atoi_def digit_val_def max_int_def FindStringSubmatch_def nameToType_def
        Let_def suffix_to_prefix)
  have names: "nameToType ''int'' = Some IntType" "nameToType ''uint'' = Some UintType"
    "nameToType ''bytes'' = Some BytesType" "nameToType ''address'' = Some AddressType"
    "nameToType ''bool'' = Some BoolType" "nameToType ''string'' = Some StringType"
    by (simp_all add: nameToType_def)
  have primitive:
    "(types_get data ''uint'' = None \<longrightarrow>
        parseType data \<lparr>Name = n, Type = ''uint''\<rparr> = Inr (UintType, ''uint'', 32, []))
   \<and> (types_get data ''uint8'' = None \<longrightarrow>
        parseType data \<lparr>Name = n, Type = ''uint8''\<rparr> = Inr (UintType, ''uint'', 1, []))
   \<and> (types_get data ''bytes32'' = None \<longrightarrow>
        parseType data \<lparr>Name = n, Type = ''bytes32''\<rparr> = Inr (FixedBytesType, ''bytes'', 32, []))
   \<and> (types_get data ''bytes'' = None \<longrightarrow>
        parseType data \<lparr>Name = n, Type = ''bytes''\<rparr> = Inr (BytesType, ''bytes'', 0, []))
   \<and> (types_get data ''address'' = None \<longrightarrow>
        parseType data \<lparr>Name = n, Type = ''address''\<rparr> = Inr (AddressType, ''address'', 20, []))
   \<and> (types_get data ''uint256'' = None \<longrightarrow>
        parseType data \<lparr>Name = n, Type = ''uint256[3][]''\<rparr>
          = Inr (UintType, ''uint'', 32, [Some 3, None]))
   \<and> (types_get data ''uint7'' = None \<longrightarrow>
        parseType data \<lparr>Name = n, Type = ''uint7''\<rparr> = Inl (InvalidLength ''uint7'' ''7''))
   \<and> (types_get data ''foo'' = None \<longrightarrow>
        parseType data \<lparr>Name = n, Type = ''foo''\<rparr> = Inl (UnknownType ''foo''))
   \<and> (ds \<noteq> [] \<and> list_all is_digit ds \<and> types_get data (base @ ds) = None \<longrightarrow>
        (base = ''int'' \<or> base = ''uint'' \<longrightarrow>
           (atoi ds mod 8 \<noteq> 0 \<or> atoi ds div 8 < 1 \<or> 32 < atoi ds div 8 \<longrightarrow>
              parseType data \<lparr>Name = n, Type = base @ ds\<rparr> = Inl (InvalidLength (base @ ds) ds))
         \<and> (atoi ds mod 8 = 0 \<and> 1 \<le> atoi ds div 8 \<and> atoi ds div 8 \<le> 32 \<longrightarrow>
              parseType data \<lparr>Name = n, Type = base @ ds\<rparr>
                = Inr (if base = ''int'' then IntType else UintType, base, atoi ds div 8, [])))
      \<and> (base = ''bytes'' \<longrightarrow>
           (atoi ds < 1 \<or> 32 < atoi ds \<longrightarrow>
              parseType data \<lparr>Name = n, Type = base @ ds\<rparr> = Inl (InvalidLength (base @ ds) ds))
         \<and> (1 \<le> atoi ds \<and> atoi ds \<le> 32 \<longrightarrow>
              parseType data \<lparr>Name = n, Type = base @ ds\<rparr>
                = Inr (FixedBytesType, ''bytes'', atoi ds, [])))
      \<and> (base = ''address'' \<or> base = ''bool'' \<or> base = ''string'' \<longrightarrow>
           parseType data \<lparr>Name = n, Type = base @ ds\<rparr> = Inl (InvalidType (base @ ds))))"
    using fixed parseType_base_digits [OF names(1), of ds data n]
      parseType_base_digits [OF names(2), of ds data n]
      parseType_base_digits [OF names(3), of ds data n]
      parseType_base_digits [OF names(4), of ds data n]
      parseType_base_digits [OF names(5), of ds data n]
      parseType_base_digits [OF names(6), of ds data n]
    by (auto simp del: One_nat_def)
  show ?thesis
    using conjI [OF primitive conjI [OF custom conjI [OF custom_uint custom_person]]]
    by (simp only: conj_assoc)
qed

text \<open>
  C3, witness: a document with no struct at all, a field of each kind and digit runs on
  each side of the bounds; a document with a struct named \<open>uint\<close>, and one whose
  \<open>EIP712Domain\<close> has no field.
\<close>

theorem parseType_resolves_witness:
  "types_get doc_empty ''uint'' = None
   \<and> parseType doc_empty \<lparr>Name = ''f'', Type = ''uint''\<rparr> = Inr (UintType, ''uint'', 32, [])
   \<and> parseType doc_empty \<lparr>Name = ''f'', Type = ''uint256[3][]''\<rparr>
       = Inr (UintType, ''uint'', 32, [Some 3, None])
   \<and> parseType doc_empty \<lparr>Name = ''f'', Type = ''uint7''\<rparr> = Inl (InvalidLength ''uint7'' ''7'')
   \<and> parseType doc_empty \<lparr>Name = ''f'', Type = ''foo''\<rparr> = Inl (UnknownType ''foo'')
   \<and> list_all is_digit ''264''
   \<and> parseType doc_empty \<lparr>Name = ''f'', Type = ''uint264''\<rparr>
       = Inl (InvalidLength ''uint264'' ''264'')
   \<and> parseType doc_empty \<lparr>Name = ''f'', Type = ''int64''\<rparr> = Inr (IntType, ''int'', 8, [])
   \<and> parseType doc_empty \<lparr>Name = ''f'', Type = ''bytes33''\<rparr>
       = Inl (InvalidLength ''bytes33'' ''33'')
   \<and> parseType doc_empty \<lparr>Name = ''f'', Type = ''bytes4''\<rparr>
       = Inr (FixedBytesType, ''bytes'', 4, [])
   \<and> parseType doc_empty \<lparr>Name = ''f'', Type = ''address20''\<rparr>
       = Inl (InvalidType ''address20'')
   \<and> types_get doc_uint ''uint'' \<noteq> None
   \<and> parseType doc_uint \<lparr>Name = ''f'', Type = ''uint[4]''\<rparr>
       = Inr (CustomType, ''uint'', 0, [Some 4])
   \<and> types_get doc_mail ''EIP712Domain'' = Some []
   \<and> parseType doc_mail \<lparr>Name = ''f'', Type = '' EIP712Domain ''\<rparr>
       = Inr (CustomType, ''EIP712Domain'', 0, [])"
  using parseType_resolves [where data = doc_uint and n = "''f''" and t = "''uint[4]''"
      and nm = "''uint''" and sfx = "''[4]''" and ds = "''8''" and base = "''uint''"]
    parseType_resolves [where data = doc_mail and n = "''f''" and t = "'' EIP712Domain ''"
      and nm = "''EIP712Domain''" and sfx = "[]" and ds = "''8''" and base = "''uint''"]
    parseType_resolves [of doc_empty "''f''" "''264''" "''uint''"]
    parseType_resolves [of doc_empty "''f''" "''64''" "''int''"]
    parseType_resolves [of doc_empty "''f''" "''33''" "''bytes''"]
    parseType_resolves [of doc_empty "''f''" "''4''" "''bytes''"]
    parseType_resolves [of doc_empty "''f''" "''20''" "''address''"]
  by (simp add: doc_empty_def doc_uint_def doc_mail_def types_get_def is_digit_def atoi_def
      digit_val_def max_int_def TrimSpace_def trim_left.simps trim_right.simps ws_runes_def
      suffix_to_prefix)

section \<open>Family A: properties\<close>

text \<open>
  C1, at firmware 1.4.0 with the Ethereum app running: the version check of \<open>SignText\<close> and
  \<open>SignedTypedData\<close> tests \<open>version[0] < 1 && version[1] < 5\<close>, which holds only for major
  version 0 with a minor version below 5. A version 1.4.0 is below 1.5.0 and still goes on
  to the exchange with the device, against the error message of the check itself, which
  asks for version 1.5.0 or later.
\<close>

theorem ledger_version_check_passes_1_4_0:
  "version_too_old (v0, v1, v2) = (v0 = 0 \<and> v1 < 5)
   \<and> \<not> version_too_old (1, 4, 0)
   \<and> ledger_SignText ex \<lparr>offline = False, version = (1, 4, 0)\<rparr> ses path text
       = ledgerSignPersonalMessage ex ses path text
   \<and> ledger_SignedTypedData ex \<lparr>offline = False, version = (1, 4, 0)\<rparr> ses path data
       = ledgerSignTypedData ex ses path data"
  by (simp add: version_too_old_def ledger_SignText_def ledger_SignedTypedData_def word_less_1)

text \<open>
  C6: \<open>ledgerSignTypedData\<close>, and \<open>SignedTypedData\<close> of the Ledger driver once the
  app runs and the version check passes, return the error for a missing \<open>EIP712Domain\<close>,
  or for a missing primary type, with the session as it was: no request has been sent. In
  the Trezor loop, a struct request that names a struct with no declared fields (absent,
  nil or empty) ends the call with the no-fields error; the only request in the log is the
  one that this reply answers, and the replies to come are not read. When it is the first
  reply of \<open>SignedTypedData\<close>, the initial signing request is the only one sent.
\<close>

theorem schema_errors_before_transport:
  "(types_get data ''EIP712Domain'' = None \<longrightarrow>
      ledgerSignTypedData ex ses path data = (Inl DomainTypeRequired, ses))
 \<and> (types_get data ''EIP712Domain'' \<noteq> None \<and> types_get data (PrimaryType data) = None \<longrightarrow>
      ledgerSignTypedData ex ses path data = (Inl (PrimaryTypeNotFound (PrimaryType data)), ses))
 \<and> (\<not> offline w \<and> \<not> version_too_old (version w)
      \<and> (types_get data ''EIP712Domain'' = None \<or> types_get data (PrimaryType data) = None) \<longrightarrow>
      ledger_SignedTypedData ex w ses path data
        = (Inl (if types_get data ''EIP712Domain'' = None then DomainTypeRequired
                else PrimaryTypeNotFound (PrimaryType data)), ses))
 \<and> (types_get data name = None \<or> types_get data name = Some [] \<longrightarrow>
      trezor_loop data req nestedArray (Inr (EthereumTypedDataStructRequest name) # replies) log
        = (Some (Inl (NoFieldsForStruct name)), log @ [req]))
 \<and> (device tw \<and> TypedDataAndHash data = Inr D \<and> 66 \<le> length D \<and> fst (tversion tw) \<noteq> 1
      \<and> (types_get data name = None \<or> types_get data name = Some []) \<longrightarrow>
      trezor_SignedTypedData TypedDataAndHash SignTypedHash tw path data
          (Inr (EthereumTypedDataStructRequest name) # replies)
        = (Some (Inl (NoFieldsForStruct name)),
           [EthereumSignTypedData path (PrimaryType data) (bytes_of (take 32 (drop 34 D)))]))"
  by (auto simp: ledgerSignTypedData_def ledger_SignedTypedData_def struct_query_def
      trezor_SignedTypedData_def Let_def)

text \<open>
  C6, witness: a document with no type, one with the domain only, and struct requests for
  an undeclared struct and for the empty \<open>EIP712Domain\<close>.
\<close>

theorem schema_errors_before_transport_witness:
  "types_get doc_empty ''EIP712Domain'' = None
   \<and> ledgerSignTypedData accepting_device fresh_session [] doc_empty
       = (Inl DomainTypeRequired, fresh_session)
   \<and> types_get doc_no_primary ''EIP712Domain'' \<noteq> None
   \<and> types_get doc_no_primary (PrimaryType doc_no_primary) = None
   \<and> ledgerSignTypedData accepting_device fresh_session [] doc_no_primary
       = (Inl (PrimaryTypeNotFound ''Mail''), fresh_session)
   \<and> types_get doc_mail ''Nope'' = None
   \<and> trezor_loop doc_mail (EthereumTypedDataValueAck []) False
        [Inr (EthereumTypedDataStructRequest ''Nope''), Inr (EthereumTypedDataSignature [])] []
       = (Some (Inl (NoFieldsForStruct ''Nope'')), [EthereumTypedDataValueAck []])
   \<and> types_get doc_mail ''EIP712Domain'' = Some []
   \<and> trezor_loop doc_mail (EthereumTypedDataValueAck []) False
        [Inr (EthereumTypedDataStructRequest ''EIP712Domain''), Inr (EthereumTypedDataSignature [])] []
       = (Some (Inl (NoFieldsForStruct ''EIP712Domain'')), [EthereumTypedDataValueAck []])
   \<and> ledger_SignedTypedData accepting_device \<lparr>offline = False, version = (1, 9, 0)\<rparr>
        fresh_session [] doc_empty
       = (Inl DomainTypeRequired, fresh_session)
   \<and> trezor_SignedTypedData (\<lambda>d. Inr digest_example) (\<lambda>p dh mh. Inr [])
        \<lparr>device = True, tversion = (2, 0, 0)\<rparr> [] doc_mail
        [Inr (EthereumTypedDataStructRequest ''Nope''), Inr (EthereumTypedDataSignature [])]
       = (Some (Inl (NoFieldsForStruct ''Nope'')),
          [EthereumSignTypedData [] ''Mail'' (bytes_of ''mmmmmmmmmmmmmmmmmmmmmmmmmmmmmmmm'')])"
  using schema_errors_before_transport [where data = doc_empty and ex = accepting_device
      and ses = fresh_session and path = "[]" and name = "''Nope''"
      and w = "\<lparr>offline = False, version = (1, 9, 0)\<rparr>"
      and req = "EthereumTypedDataValueAck []" and nestedArray = False
      and replies = "[Inr (EthereumTypedDataSignature [])]" and log = "[]"
      and tw = "\<lparr>device = True, tversion = (2, 0, 0)\<rparr>"
      and TypedDataAndHash = "\<lambda>d. Inr digest_example" and D = digest_example
      and SignTypedHash = "\<lambda>p dh mh. Inr []"]
    schema_errors_before_transport [where data = doc_no_primary and ex = accepting_device
      and ses = fresh_session and path = "[]" and name = "''Nope''"
      and w = "\<lparr>offline = False, version = (1, 9, 0)\<rparr>"
      and req = "EthereumTypedDataValueAck []" and nestedArray = False
      and replies = "[Inr (EthereumTypedDataSignature [])]" and log = "[]"
      and tw = "\<lparr>device = True, tversion = (2, 0, 0)\<rparr>"
      and TypedDataAndHash = "\<lambda>d. Inr digest_example" and D = digest_example
      and SignTypedHash = "\<lambda>p dh mh. Inr []"]
    schema_errors_before_transport [where data = doc_mail and ex = accepting_device
      and ses = fresh_session and path = "[]" and name = "''Nope''"
      and w = "\<lparr>offline = False, version = (1, 9, 0)\<rparr>"
      and req = "EthereumTypedDataValueAck []" and nestedArray = False
      and replies = "[Inr (EthereumTypedDataSignature [])]" and log = "[]"
      and tw = "\<lparr>device = True, tversion = (2, 0, 0)\<rparr>"
      and TypedDataAndHash = "\<lambda>d. Inr digest_example" and D = digest_example
      and SignTypedHash = "\<lambda>p dh mh. Inr []"]
    schema_errors_before_transport [where data = doc_mail and ex = accepting_device
      and ses = fresh_session and path = "[]" and name = "''EIP712Domain''"
      and w = "\<lparr>offline = False, version = (1, 9, 0)\<rparr>"
      and req = "EthereumTypedDataValueAck []" and nestedArray = False
      and replies = "[Inr (EthereumTypedDataSignature [])]" and log = "[]"
      and tw = "\<lparr>device = True, tversion = (2, 0, 0)\<rparr>"
      and TypedDataAndHash = "\<lambda>d. Inr digest_example" and D = digest_example
      and SignTypedHash = "\<lambda>p dh mh. Inr []"]
  by (simp add: doc_empty_def doc_no_primary_def doc_mail_def types_get_def version_too_old_def
      digest_example_def bytes_of_def)

text \<open>
  C7: for a struct \<open>t\<close> declared as \<open>{a: uint8, b: string}\<close> and the value
  \<open>{a: 5, b: "hi"}\<close>, with a device that accepts both requests, \<open>sendValue\<close> sends
  exactly two messages, both struct-field values (P2 = 0xff, none with the array P2 0x0f),
  with the payloads 00 01 05 and 00 02 68 69, in that order.
\<close>

theorem sendValue_struct_example:
  assumes "types_get data t = Some [\<lparr>Name = ''a'', Type = ''uint8''\<rparr>, \<lparr>Name = ''b'', Type = ''string''\<rparr>]"
    and "\<not> suffix '']'' t"
    and "types_get data ''uint8'' = None" and "types_get data ''string'' = None"
    and "ex (dev ses) (0x1c, 0, 0xff, [0, 1, 5]) = (Inr r1, s1)"
    and "ex s1 (0x1c, 0, 0xff, [0, 2, 0x68, 0x69]) = (Inr r2, s2)"
  shows "sendValue ex data ses t name (VMap [(''a'', VFloat 5), (''b'', VString ''hi'')])
         = (None, \<lparr>dev = s2, sent = sent ses @ [(0x1c, 0, 0xff, [0, 1, 5]),
                                                 (0x1c, 0, 0xff, [0, 2, 0x68, 0x69])]\<rparr>)"
  using assms
  by (simp add: sendValue.simps map_get_def ledger_encode_def int64_Bytes_def big_Bytes.simps
      ledgerExchange_def ledger_consts be16_def bytes_of_def suffix_to_prefix)

text \<open>
  C7, witness: the document \<open>doc_ab\<close> and a device that accepts every request.
\<close>

theorem sendValue_struct_example_witness:
  "sendValue accepting_device doc_ab fresh_session ''S'' ''message'' (VMap (Message doc_ab))
   = (None, \<lparr>dev = (), sent = [(0x1c, 0, 0xff, [0, 1, 5]), (0x1c, 0, 0xff, [0, 2, 0x68, 0x69])]\<rparr>)"
  using sendValue_struct_example [of doc_ab "''S''" accepting_device fresh_session "[]" "()" "[]" "()"
      "''message''"]
  by (simp add: doc_ab_def types_get_def accepting_device_def fresh_session_def suffix_to_prefix)

section \<open>The signature envelope\<close>

text \<open>
  C2, as stated, on Family B: a signature message of three bytes is returned as the result,
  unchanged; there is no check of the length and no rotation.
\<close>

theorem trezor_signature_unchecked:
  "trezor_SignedTypedData (\<lambda>d. Inr digest_example) (\<lambda>p dh mh. Inr [])
      \<lparr>device = True, tversion = (2, 0, 0)\<rparr> [] doc_mail
      [Inr (EthereumTypedDataSignature [1, 2, 3])]
   = (Some (Inr [1, 2, 3]),
      [EthereumSignTypedData [] ''Mail'' (bytes_of ''mmmmmmmmmmmmmmmmmmmmmmmmmmmmmmmm'')])"
  by (simp add: trezor_SignedTypedData_def digest_example_def bytes_of_def doc_mail_def)

text \<open>
  C2 (amended): in Family A, for the personal message and for typed data, a reply
  \<open>[v, r(32), s(32)]\<close> of the signing request is returned as \<open>[r, s, v]\<close>, and a reply
  of any other length than 65 is an error; in Family B the signature of the device's
  signature message is returned as it is, whatever its length.
\<close>

theorem signature_envelope:
  "(ex (dev ses) (0x08, 0, 0, flatten_path dp @ be32 (of_nat (length msg)) @ msg) = (Inr reply, s')
      \<longrightarrow> (length reply \<noteq> 65 \<longrightarrow>
             fst (ledgerSignPersonalMessage ex ses dp msg) = Inl ReplyLacksSignature)
        \<and> (length r = 32 \<and> length s = 32 \<and> reply = v # r @ s \<longrightarrow>
             fst (ledgerSignPersonalMessage ex ses dp msg) = Inr (r @ s @ [v])))
 \<and> (types_get data ''EIP712Domain'' \<noteq> None \<and> types_get data (PrimaryType data) \<noteq> None
      \<and> sendDefsAndValues ex data ses = (None, ses')
      \<and> ex (dev ses') (0x0c, 0, 0x01, flatten_path dp) = (Inr reply', s'')
      \<longrightarrow> (length reply' \<noteq> 65 \<longrightarrow>
             fst (ledgerSignTypedData ex ses dp data) = Inl (InvalidSignatureLength (length reply')))
        \<and> (length r = 32 \<and> length s = 32 \<and> reply' = v # r @ s \<longrightarrow>
             fst (ledgerSignTypedData ex ses dp data) = Inr (r @ s @ [v])))
 \<and> trezor_loop data req nestedArray (Inr (EthereumTypedDataSignature signature) # replies) log
      = (Some (Inr signature), log @ [req])
 \<and> (device w \<longrightarrow> trezor_SignText w (Inr signature) = Inr signature)"
  by (auto simp: ledgerSignPersonalMessage_def ledgerSignTypedData_def ledgerExchange_def
      ledger_consts trezor_SignText_def Let_def)

text \<open>
  C2, witness: a device that answers every request with the 65 bytes 01, 02 (32 times),
  03 (32 times), and one that answers with no byte.
\<close>

theorem signature_envelope_witness:
  "fst (ledgerSignPersonalMessage signing_device fresh_session [] [])
     = Inr (replicate 32 2 @ replicate 32 3 @ [1])
   \<and> fst (sendDefsAndValues signing_device doc_mail fresh_session) = None
   \<and> fst (ledgerSignTypedData signing_device fresh_session [] doc_mail)
     = Inr (replicate 32 2 @ replicate 32 3 @ [1])
   \<and> fst (ledgerSignPersonalMessage accepting_device fresh_session [] [])
     = Inl ReplyLacksSignature
   \<and> fst (ledgerSignTypedData accepting_device fresh_session [] doc_mail)
     = Inl (InvalidSignatureLength 0)
   \<and> trezor_SignText \<lparr>device = True, tversion = (2, 0, 0)\<rparr> (Inr [1, 2, 3]) = Inr [1, 2, 3]"
proof -
  have p: "parseType doc_mail \<lparr>Name = ''from'', Type = ''string''\<rparr> = Inr (StringType, ''string'', 0, [])"
    "parseType doc_mail \<lparr>Name = ''to'', Type = ''string''\<rparr> = Inr (StringType, ''string'', 0, [])"
    by (simp_all add: doc_mail_def parse_eval)
  have t: "Types doc_mail = [(''EIP712Domain'', Some []),
               (''Mail'', Some [\<lparr>Name = ''from'', Type = ''string''\<rparr>,
                                \<lparr>Name = ''to'', Type = ''string''\<rparr>])]"
    "types_get doc_mail ''EIP712Domain'' = Some []"
    "types_get doc_mail ''Mail'' = Some [\<lparr>Name = ''from'', Type = ''string''\<rparr>,
                                \<lparr>Name = ''to'', Type = ''string''\<rparr>]"
    "types_get doc_mail ''string'' = None" "PrimaryType doc_mail = ''Mail''"
    "Domain doc_mail = []" "Message doc_mail = [(''from'', VString ''x''), (''to'', VString ''y'')]"
    by (simp_all add: doc_mail_def types_get_def)
  have d: "fst (sendDefsAndValues ex doc_mail fresh_session) = None"
    if "\<And>s a. \<exists>r. ex s a = (Inr r, s)" for ex :: "unit device"
  proof -
    have e: "ledgerExchange ex ses a = (Inr (projr (fst (ex (dev ses) a))), \<lparr>dev = (), sent = sent ses @ [a]\<rparr>)"
      for ses a
      using that [of "dev ses" a] by (auto simp: ledgerExchange_def)
    show ?thesis
      by (simp add: sendDefsAndValues_def sendField_def e p t sendValue.simps ledger_encode_def
          map_get_def suffix_to_prefix)
  qed
  have f1: "fst (sendDefsAndValues signing_device doc_mail fresh_session) = None"
    and f2: "fst (sendDefsAndValues accepting_device doc_mail fresh_session) = None"
    using d [of signing_device] d [of accepting_device]
    by (simp_all add: signing_device_def accepting_device_def)
  have d1: "sendDefsAndValues signing_device doc_mail fresh_session
            = (None, snd (sendDefsAndValues signing_device doc_mail fresh_session))"
    and d2: "sendDefsAndValues accepting_device doc_mail fresh_session
            = (None, snd (sendDefsAndValues accepting_device doc_mail fresh_session))"
    using f1 f2 by (simp_all add: prod_eq_iff)
  note i1 = signature_envelope [where ex = signing_device and ses = fresh_session and dp = "[]"
      and msg = "[]" and reply = "1 # replicate 32 2 @ replicate 32 3" and s' = "()"
      and r = "replicate 32 2" and s = "replicate 32 3" and v = 1 and data = doc_mail
      and ses' = "snd (sendDefsAndValues signing_device doc_mail fresh_session)"
      and reply' = "1 # replicate 32 2 @ replicate 32 3" and s'' = "()"
      and w = "\<lparr>device = True, tversion = (2, 0, 0)\<rparr>" and signature = "[1, 2, 3]"
      and req = "EthereumTypedDataValueAck []" and nestedArray = False and replies = "[]"
      and log = "[]"]
  note i2 = signature_envelope [where ex = accepting_device and ses = fresh_session and dp = "[]"
      and msg = "[]" and reply = "[]" and s' = "()"
      and r = "replicate 32 2" and s = "replicate 32 3" and v = 1 and data = doc_mail
      and ses' = "snd (sendDefsAndValues accepting_device doc_mail fresh_session)"
      and reply' = "[]" and s'' = "()"
      and w = "\<lparr>device = True, tversion = (2, 0, 0)\<rparr>" and signature = "[1, 2, 3]"
      and req = "EthereumTypedDataValueAck []" and nestedArray = False and replies = "[]"
      and log = "[]"]
  show ?thesis
    using i1 i2 d1 d2 f1 t(2,3,5)
    by (simp add: signing_device_def accepting_device_def fresh_session_def flatten_path_def
        be32_def)
qed

section \<open>Family B: properties\<close>

lemma slice_nth: "k + n \<le> length xs \<Longrightarrow> take n (drop k xs) = map ((!) xs) [k..<k + n]"
  by (rule map_upt_eqI [symmetric]) (simp_all add: add.commute)

text \<open>
  C9: with an open device of major version 1 and a digest \<open>D\<close> of 66 bytes,
  \<open>SignedTypedData\<close> is the result of the hash-signing path on \<open>D[2:34]\<close> and
  \<open>D[34:66]\<close>, and no request of the interactive protocol is sent, whatever the device
  would answer.
\<close>

theorem trezor_legacy_fallback:
  assumes "device w" and "TypedDataAndHash data = Inr D" and "length D = 66"
    and "fst (tversion w) = 1"
  shows "trezor_SignedTypedData TypedDataAndHash SignTypedHash w path data replies
         = (Some (SignTypedHash path (bytes_of (map ((!) D) [2..<34]))
                                   (bytes_of (map ((!) D) [34..<66]))), [])"
  using assms slice_nth [of 2 32 D] slice_nth [of 34 32 D]
  by (simp add: trezor_SignedTypedData_def Let_def)

text \<open>
  C9, witness: a digest of 66 characters and a hash-signing path that returns its two
  arguments.
\<close>

theorem trezor_legacy_fallback_witness:
  "length digest_example = 66
   \<and> trezor_SignedTypedData (\<lambda>d. Inr digest_example) (\<lambda>p dh mh. Inr (dh @ mh))
        \<lparr>device = True, tversion = (1, 9, 0)\<rparr> [] doc_mail
        [Inr (EthereumTypedDataValueRequest [1, 0])]
     = (Some (Inr (bytes_of ''ddddddddddddddddddddddddddddddddmmmmmmmmmmmmmmmmmmmmmmmmmmmmmmmm'')), [])"
  using trezor_legacy_fallback [of "\<lparr>device = True, tversion = (1, 9, 0)\<rparr>"
      "\<lambda>d. Inr digest_example" doc_mail digest_example
      "\<lambda>p dh mh. Inr (dh @ mh)" "[]" "[Inr (EthereumTypedDataValueRequest [1, 0])]"]
  by (simp add: digest_example_def bytes_of_def upt_rec)

text \<open>
  C10: when the device answers with a value request whose member path is empty, the read
  of \<open>MemberPath[0]\<close> is out of range: the call ends there in a panic, not in an error
  value, after the one request it has sent.
\<close>

theorem trezor_empty_member_path:
  assumes "device w" and "TypedDataAndHash data = Inr D" and "66 \<le> length D"
    and "fst (tversion w) \<noteq> 1"
  shows "trezor_SignedTypedData TypedDataAndHash SignTypedHash w path data
           (Inr (EthereumTypedDataValueRequest []) # replies)
         = (Some (Inl (Panic IndexOutOfRange)),
            [EthereumSignTypedData path (PrimaryType data) (bytes_of (take 32 (drop 34 D)))])"
  using assms by (simp add: trezor_SignedTypedData_def Let_def value_query_def)

text \<open>
  C10, witness: a device of major version 2 whose first answer is a value request with an
  empty path.
\<close>

theorem trezor_empty_member_path_witness:
  "trezor_SignedTypedData (\<lambda>d. Inr digest_example) (\<lambda>p dh mh. Inr [])
      \<lparr>device = True, tversion = (2, 0, 0)\<rparr> [] doc_mail
      [Inr (EthereumTypedDataValueRequest [])]
   = (Some (Inl (Panic IndexOutOfRange)),
      [EthereumSignTypedData [] ''Mail'' (bytes_of ''mmmmmmmmmmmmmmmmmmmmmmmmmmmmmmmm'')])"
  using trezor_empty_member_path [of "\<lparr>device = True, tversion = (2, 0, 0)\<rparr>"
      "\<lambda>d. Inr digest_example" doc_mail digest_example
      "\<lambda>p dh mh. Inr []" "[]" "[]"]
  by (simp add: digest_example_def bytes_of_def doc_mail_def)

lemma array_descent_select:
  "array_descent k v (p # rest) =
     (case select_elements v (take k rest) of
        Inl e \<Rightarrow> Inl e
      | Inr v' \<Rightarrow> Inr (v', last (p # take k rest) # drop k rest))"
proof (induction k arbitrary: v p rest)
  case 0
  then show ?case by simp
next
  case (Suc k)
  show ?case
  proof (cases rest)
    case Nil
    then show ?thesis by simp
  next
    case (Cons q rest')
    then show ?thesis
      using Suc.IH [of _ q rest']
      by (auto split: option.splits sum.splits)
  qed
qed

lemma resolve_path_step:
  assumes "unat p < length fs" and "parseType data (fs ! unat p) = Inr (dt, name, w, arrays)"
  shows "resolve_path data (Some fs) sv nested (p # rest) =
     (case select_elements (map_get sv (Name (fs ! unat p))) (take (length arrays) rest) of
        Inl e \<Rightarrow> Inl e
      | Inr v \<Rightarrow>
          if v = VNil then Inl (Panic NilDereference)
          else if drop (length arrays) rest \<noteq> [] then
            (case v of
               VMap m \<Rightarrow>
                 resolve_path data (types_get data name) m (nested \<or> 1 < length arrays)
                   (drop (length arrays) rest)
             | VOtherMap \<Rightarrow> Inl (Panic TypeAssertion)
             | _ \<Rightarrow> Inl ExpectedMapAt)
          else
            (case elements v of
               Some a \<Rightarrow> Inr (be16 (of_nat (length a)), nested \<or> 1 < length arrays)
             | None \<Rightarrow>
                 (case trezor_encode dt name w v of
                    Inl e \<Rightarrow> Inl e
                  | Inr reply \<Rightarrow> Inr (reply, nested \<or> 1 < length arrays))))"
proof -
  have len: "1 < length (x # xs) \<longleftrightarrow> xs \<noteq> []" for x :: "32 word" and xs
    by (cases xs) auto
  show ?thesis
    using assms
    by (auto simp add: array_descent_select len simp del: array_descent.simps
        split: sum.splits gvalue.splits)
qed

lemma resolve_path_flag:
  "resolve_path data st sv flag path = Inr (v, f) \<Longrightarrow>
   f = (flag \<or> (\<exists>field \<in> set (fields_read data st sv path). more_than_one_dimension data field))"
proof (induction data st sv path arbitrary: flag v f rule: fields_read.induct)
  case (1 data structType structValue)
  then show ?case by simp
next
  case (2 data structType structValue p rest)
  from "2.prems" obtain fs where st: "structType = Some fs" and p: "unat p < length fs"
    by (cases structType) (auto split: if_splits)
  from "2.prems" st p obtain dt name w arrays
    where pt: "parseType data (fs ! unat p) = Inr (dt, name, w, arrays)"
    by (auto split: sum.splits)
  have m: "more_than_one_dimension data (fs ! unat p) = (1 < length arrays)"
    by (simp add: more_than_one_dimension_def pt)
  note step = resolve_path_step [OF p pt, of structValue flag rest]
  show ?case
  proof (cases "drop (length arrays) rest = []")
    case True
    then show ?thesis
      using "2.prems" st p pt m unfolding st step
      by (auto split: sum.splits if_splits option.splits)
  next
    case False
    from "2.prems" False obtain mm
      where sel: "select_elements (map_get structValue (Name (fs ! unat p))) (take (length arrays) rest)
                  = Inr (VMap mm)"
        and rec: "resolve_path data (types_get data name) mm (flag \<or> 1 < length arrays)
                    (drop (length arrays) rest) = Inr (v, f)"
      unfolding st step by (auto split: sum.splits if_splits gvalue.splits)
    have "f = ((flag \<or> 1 < length arrays) \<or>
               (\<exists>field \<in> set (fields_read data (types_get data name) mm (drop (length arrays) rest)).
                  more_than_one_dimension data field))"
      using "2.IH" [OF st _ pt refl refl refl False sel refl rec] p by simp
    then show ?thesis
      using st p pt m False sel by auto
  qed
qed

lemma be16_count: "be16 (of_nat n) = [of_nat (n div 256), of_nat (n mod 256)]"
proof -
  have d: "n div 256 = drop_bit 8 n" and m: "n mod 256 = take_bit 8 n"
    by (simp_all add: drop_bit_eq_div take_bit_eq_mod)
  have "(ucast (drop_bit 8 (of_nat n :: 16 word)) :: 8 word) = of_nat (drop_bit 8 n)"
    by (rule bit_word_eqI) (auto simp add: bit_simps)
  moreover have "(ucast (of_nat n :: 16 word) :: 8 word) = of_nat (take_bit 8 n)"
    by (rule bit_word_eqI) (auto simp add: bit_simps)
  ultimately show ?thesis unfolding be16_def d m by simp
qed

text \<open>
  C5: a first index 0 resolves in the domain, any other in the message of the primary type.
  Then, in the current struct: an index at or beyond the number of fields is an error; the
  index of a struct-typed field followed by more indices goes on in that struct; in an
  array-typed field the next index selects the element, is an error at or beyond the
  length, and goes on in the element when it is a struct; a path that ends at an array,
  the field's value or an element reached, is answered with the two big-endian bytes of
  its length (the length modulo 65536). In general, one step of the walker, at a field
  with \<open>k\<close> array levels: the next \<open>k\<close> indices of the path (all of them when fewer are
  left) select elements as \<open>select_elements\<close> says, at every level, with an error at an
  index at or beyond the length; when indices are left after them the element must be a
  struct, in which the walk goes on; when none is left the reply is the count of an array
  and the leaf encoding of any other value, also for an element of primitive type. On the
  document \<open>Mail{from: string, to: string}\<close> with \<open>{from: "x", to: "y"}\<close>, the path
  [1, 0] gives the byte 0x78 and [1, 5] fails; on \<open>doc_group\<close>, the element 0 of a
  \<open>uint8[]\<close> field and the element [0][1] of a \<open>uint8[][]\<close> field give their byte, and
  an index beyond the length fails at the first and at the second level.
\<close>

theorem value_query_resolution:
  "value_query data (p0 # rest)
     = resolve_path data
         (if p0 = 0 then types_get data ''EIP712Domain'' else types_get data (PrimaryType data))
         (if p0 = 0 then Domain data else Message data) False rest
 \<and> (length fs \<le> unat p \<longrightarrow>
      resolve_path data (Some fs) structValue nested (p # path) = Inl (InvalidFieldIndex p))
 \<and> (unat p < length fs \<and> parseType data (fs ! unat p) = Inr (dt, name, w, arrays) \<longrightarrow>
      (arrays = [] \<and> map_get structValue (Name (fs ! unat p)) = VMap m \<and> path \<noteq> [] \<longrightarrow>
         resolve_path data (Some fs) structValue nested (p # path)
           = resolve_path data (types_get data name) m nested path)
    \<and> (arrays \<noteq> [] \<and> map_get structValue (Name (fs ! unat p)) = VArray xs \<longrightarrow>
         (length xs \<le> unat q \<longrightarrow>
            resolve_path data (Some fs) structValue nested (p # q # path)
              = Inl (InvalidArrayIndex q))
       \<and> (unat q < length xs \<and> length arrays = 1 \<and> xs ! unat q = VMap m \<and> path \<noteq> [] \<longrightarrow>
            resolve_path data (Some fs) structValue nested (p # q # path)
              = resolve_path data (types_get data name) m nested path)
       \<and> (unat q < length xs \<and> xs ! unat q = VArray ys \<longrightarrow>
            resolve_path data (Some fs) structValue nested [p, q]
              = Inr (be16 (of_nat (length ys)), nested \<or> 1 < length arrays))
       \<and> resolve_path data (Some fs) structValue nested [p]
            = Inr (be16 (of_nat (length xs)), nested \<or> 1 < length arrays)))
 \<and> (unat p < length fs \<and> parseType data (fs ! unat p) = Inr (dt, name, w, arrays) \<longrightarrow>
      resolve_path data (Some fs) structValue nested (p # path) =
        (case select_elements (map_get structValue (Name (fs ! unat p)))
                (take (length arrays) path) of
           Inl e \<Rightarrow> Inl e
         | Inr v \<Rightarrow>
             if v = VNil then Inl (Panic NilDereference)
             else if drop (length arrays) path \<noteq> [] then
               (case v of
                  VMap m \<Rightarrow>
                    resolve_path data (types_get data name) m (nested \<or> 1 < length arrays)
                      (drop (length arrays) path)
                | VOtherMap \<Rightarrow> Inl (Panic TypeAssertion)
                | _ \<Rightarrow> Inl ExpectedMapAt)
             else
               (case elements v of
                  Some a \<Rightarrow> Inr (be16 (of_nat (length a)), nested \<or> 1 < length arrays)
                | None \<Rightarrow>
                    (case trezor_encode dt name w v of
                       Inl e \<Rightarrow> Inl e
                     | Inr reply \<Rightarrow> Inr (reply, nested \<or> 1 < length arrays)))))
 \<and> resolve_path data None structValue nested (p # path) = Inl NoStructType
 \<and> be16 (of_nat n) = [of_nat (n div 256), of_nat (n mod 256)]
 \<and> value_query doc_mail [1, 0] = Inr ([0x78], False)
 \<and> value_query doc_mail [1, 5] = Inl (InvalidFieldIndex 5)
 \<and> value_query doc_group [1, 3, 0] = Inr ([7], False)
 \<and> value_query doc_group [1, 3, 4] = Inl (InvalidArrayIndex 4)
 \<and> value_query doc_group [1, 2, 0, 1] = Inr ([2], True)
 \<and> value_query doc_group [1, 2, 0, 5] = Inl (InvalidArrayIndex 5)
 \<and> value_query doc_group [1, 2, 3, 0] = Inl (InvalidArrayIndex 3)"
proof -
  have root: "value_query data (p0 # rest)
     = resolve_path data
         (if p0 = 0 then types_get data ''EIP712Domain'' else types_get data (PrimaryType data))
         (if p0 = 0 then Domain data else Message data) False rest"
    by (simp add: value_query_def)
  have range: "length fs \<le> unat p \<Longrightarrow>
      resolve_path data (Some fs) structValue nested (p # path) = Inl (InvalidFieldIndex p)"
    by simp
  have field: "resolve_path data (Some fs) structValue nested (p # path)
           = resolve_path data (types_get data name) m nested path"
    if "unat p < length fs" "parseType data (fs ! unat p) = Inr (dt, name, w, arrays)"
       "arrays = []" "map_get structValue (Name (fs ! unat p)) = VMap m" "path \<noteq> []"
    using that by (cases path) simp_all
  have arr: "arrays \<noteq> [] \<Longrightarrow> \<exists>j. length arrays = Suc j" by (cases arrays) auto
  have elem_range: "resolve_path data (Some fs) structValue nested (p # q # path)
              = Inl (InvalidArrayIndex q)"
    if "unat p < length fs" "parseType data (fs ! unat p) = Inr (dt, name, w, arrays)"
       "arrays \<noteq> []" "map_get structValue (Name (fs ! unat p)) = VArray xs" "length xs \<le> unat q"
    using that arr [OF that(3)] by auto
  have elem: "resolve_path data (Some fs) structValue nested (p # q # path)
              = resolve_path data (types_get data name) m nested path"
    if "unat p < length fs" "parseType data (fs ! unat p) = Inr (dt, name, w, arrays)"
       "map_get structValue (Name (fs ! unat p)) = VArray xs"
       "unat q < length xs" "length arrays = 1" "xs ! unat q = VMap m" "path \<noteq> []"
    using that by (cases path) auto
  have inner_count: "resolve_path data (Some fs) structValue nested [p, q]
              = Inr (be16 (of_nat (length ys)), nested \<or> 1 < length arrays)"
    if "unat p < length fs" "parseType data (fs ! unat p) = Inr (dt, name, w, arrays)"
       "arrays \<noteq> []" "map_get structValue (Name (fs ! unat p)) = VArray xs"
       "unat q < length xs" "xs ! unat q = VArray ys"
    using that arr [OF that(3)] by auto
  have count: "resolve_path data (Some fs) structValue nested [p]
            = Inr (be16 (of_nat (length xs)), nested \<or> 1 < length arrays)"
    if "unat p < length fs" "parseType data (fs ! unat p) = Inr (dt, name, w, arrays)"
       "map_get structValue (Name (fs ! unat p)) = VArray xs"
    using that by (cases "length arrays") auto
  have ex1: "value_query doc_mail [1, 0] = Inr ([0x78], False)"
    by (simp add: value_query_def doc_mail_def parse_eval map_get_def trezor_encode_def bytes_of_def)
  have ex2: "value_query doc_mail [1, 5] = Inl (InvalidFieldIndex 5)"
    by (simp add: value_query_def doc_mail_def types_get_def)
  have step: "unat p < length fs \<and> parseType data (fs ! unat p) = Inr (dt, name, w, arrays) \<longrightarrow>
      resolve_path data (Some fs) structValue nested (p # path) =
        (case select_elements (map_get structValue (Name (fs ! unat p)))
                (take (length arrays) path) of
           Inl e \<Rightarrow> Inl e
         | Inr v \<Rightarrow>
             if v = VNil then Inl (Panic NilDereference)
             else if drop (length arrays) path \<noteq> [] then
               (case v of
                  VMap m \<Rightarrow>
                    resolve_path data (types_get data name) m (nested \<or> 1 < length arrays)
                      (drop (length arrays) path)
                | VOtherMap \<Rightarrow> Inl (Panic TypeAssertion)
                | _ \<Rightarrow> Inl ExpectedMapAt)
             else
               (case elements v of
                  Some a \<Rightarrow> Inr (be16 (of_nat (length a)), nested \<or> 1 < length arrays)
                | None \<Rightarrow>
                    (case trezor_encode dt name w v of
                       Inl e \<Rightarrow> Inl e
                     | Inr reply \<Rightarrow> Inr (reply, nested \<or> 1 < length arrays))))"
    using resolve_path_step [of p fs data dt name w arrays structValue nested path] by blast
  have none: "resolve_path data None structValue nested (p # path) = Inl NoStructType"
    by simp
  have pg: "parseType doc_group \<lparr>Name = ''grid'', Type = ''uint8[][]''\<rparr>
       = Inr (UintType, ''uint'', 1, [None, None])"
    "parseType doc_group \<lparr>Name = ''scores'', Type = ''uint8[]''\<rparr>
       = Inr (UintType, ''uint'', 1, [None])"
    by (simp_all add: doc_group_def parse_eval)
  have tg: "types_get doc_group (PrimaryType doc_group)
       = Some [\<lparr>Name = ''owner'', Type = ''Person''\<rparr>,
               \<lparr>Name = ''members'', Type = ''Person[]''\<rparr>,
               \<lparr>Name = ''grid'', Type = ''uint8[][]''\<rparr>,
               \<lparr>Name = ''scores'', Type = ''uint8[]''\<rparr>]"
    "Message doc_group = [(''owner'', VMap [(''name'', VString ''x'')]),
                 (''members'', VArray [VMap [(''name'', VString ''y'')]]),
                 (''grid'', VArray [VArray [VFloat 1, VFloat 2]]),
                 (''scores'', VArray [VFloat 7])]"
    by (simp_all add: doc_group_def types_get_def)
  have g1: "value_query doc_group [1, 3, 0] = Inr ([7], False)"
    and g2: "value_query doc_group [1, 3, 4] = Inl (InvalidArrayIndex 4)"
    and g3: "value_query doc_group [1, 2, 0, 1] = Inr ([2], True)"
    and g4: "value_query doc_group [1, 2, 0, 5] = Inl (InvalidArrayIndex 5)"
    and g5: "value_query doc_group [1, 2, 3, 0] = Inl (InvalidArrayIndex 3)"
    using pg
    by (simp_all add: value_query_def tg map_get_def trezor_encode_def
        int64_Bytes_def big_Bytes.simps)
  show ?thesis
    using root range field elem_range elem inner_count count step none be16_count ex1 ex2
      g1 g2 g3 g4 g5
    by blast
qed

text \<open>
  C5, witness: a document with a struct field, an array of structs and an array of arrays.
\<close>

theorem value_query_resolution_witness:
  "value_query doc_group [1, 9] = Inl (InvalidFieldIndex 9)
   \<and> value_query doc_group [1, 0, 0] = Inr ([0x78], False)
   \<and> value_query doc_group [1, 1] = Inr ([0, 1], False)
   \<and> value_query doc_group [1, 1, 7] = Inl (InvalidArrayIndex 7)
   \<and> value_query doc_group [1, 1, 0, 0] = Inr ([0x79], False)
   \<and> value_query doc_group [1, 2, 0] = Inr ([0, 2], True)
   \<and> value_query doc_group [1, 3, 0] = Inr ([7], False)
   \<and> value_query doc_group [1, 2, 0, 1] = Inr ([2], True)
   \<and> value_query doc_group [1, 2, 0, 5] = Inl (InvalidArrayIndex 5)
   \<and> value_query doc_mail [1, 0] = Inr ([0x78], False)
   \<and> value_query doc_mail [1, 5] = Inl (InvalidFieldIndex 5)"
proof -
  define fs where "fs = [\<lparr>Name = ''owner'', Type = ''Person''\<rparr>,
                         \<lparr>Name = ''members'', Type = ''Person[]''\<rparr>,
                         \<lparr>Name = ''grid'', Type = ''uint8[][]''\<rparr>,
                         \<lparr>Name = ''scores'', Type = ''uint8[]''\<rparr>]"
  have t: "types_get doc_group ''Group'' = Some fs" "PrimaryType doc_group = ''Group''"
    "types_get doc_group ''Person'' = Some [\<lparr>Name = ''name'', Type = ''string''\<rparr>]"
    "Message doc_group = [(''owner'', VMap [(''name'', VString ''x'')]),
                 (''members'', VArray [VMap [(''name'', VString ''y'')]]),
                 (''grid'', VArray [VArray [VFloat 1, VFloat 2]]),
                 (''scores'', VArray [VFloat 7])]"
    by (simp_all add: doc_group_def types_get_def fs_def)
  have p: "parseType doc_group \<lparr>Name = ''owner'', Type = ''Person''\<rparr> = Inr (CustomType, ''Person'', 0, [])"
    "parseType doc_group \<lparr>Name = ''members'', Type = ''Person[]''\<rparr>
       = Inr (CustomType, ''Person'', 0, [None])"
    "parseType doc_group \<lparr>Name = ''grid'', Type = ''uint8[][]''\<rparr>
       = Inr (UintType, ''uint'', 1, [None, None])"
    "parseType doc_group \<lparr>Name = ''name'', Type = ''string''\<rparr> = Inr (StringType, ''string'', 0, [])"
    by (simp_all add: doc_group_def parse_eval)
  have leaf: "resolve_path doc_group (Some [\<lparr>Name = ''name'', Type = ''string''\<rparr>])
                [(''name'', VString s)] False [0] = Inr (bytes_of s, False)" for s
    using p(4) by (simp add: map_get_def trezor_encode_def)
  note i0 = value_query_resolution [where data = doc_group and ?p0.0 = 1 and fs = fs
      and structValue = "Message doc_group" and nested = False and n = 1]
  note i_range = i0 [where rest = "[9]" and p = 9 and path = "[]"]
  note i_owner = i0 [where rest = "[0, 0]" and p = 0 and path = "[0]" and dt = CustomType
      and name = "''Person''" and w = 0 and arrays = "[]" and m = "[(''name'', VString ''x'')]"]
  note i_members = i0 [where p = 1 and dt = CustomType and name = "''Person''" and w = 0
      and arrays = "[None]" and xs = "[VMap [(''name'', VString ''y'')]]"
      and m = "[(''name'', VString ''y'')]"]
  note i_grid = i0 [where rest = "[2, 0]" and p = 2 and q = 0 and path = "[]" and dt = UintType
      and name = "''uint''" and w = 1 and arrays = "[None, None]"
      and xs = "[VArray [VFloat 1, VFloat 2]]" and ys = "[VFloat 1, VFloat 2]"]
  have a: "value_query doc_group [1, 9] = Inl (InvalidFieldIndex 9)"
    using i_range t by (simp add: fs_def)
  have b: "value_query doc_group [1, 0, 0] = Inr ([0x78], False)"
    using i_owner t p leaf [of "''x''"] by (simp add: fs_def map_get_def bytes_of_def)
  have c: "value_query doc_group [1, 1] = Inr ([0, 1], False)"
    using i_members [where rest = "[1]" and q = 0 and path = "[]"] t p
    by (simp add: fs_def map_get_def)
  have d: "value_query doc_group [1, 1, 7] = Inl (InvalidArrayIndex 7)"
    using i_members [where rest = "[1, 7]" and q = 7 and path = "[]"] t p
    by (simp add: fs_def map_get_def)
  have e: "value_query doc_group [1, 1, 0, 0] = Inr ([0x79], False)"
    using i_members [where rest = "[1, 0, 0]" and q = 0 and path = "[0]"] t p leaf [of "''y''"]
    by (simp add: fs_def map_get_def bytes_of_def)
  have f: "value_query doc_group [1, 2, 0] = Inr ([0, 2], True)"
    using i_grid t p by (simp add: fs_def map_get_def be16_def)
  show ?thesis
    using a b c d e f i0 by blast
qed

lemma hex_ok_even: "snd (hex_DecodeString s) \<Longrightarrow> even (length s)"
  by (induction s rule: hex_DecodeString.induct) (auto split: option.splits prod.splits)

lemma FromHex_0x:
  assumes "prefix ''0x'' str" and "hex_DecodeString (drop 2 str) = (bs, True)"
  shows "FromHex str = bs"
proof -
  obtain rest where str: "str = CHR ''0'' # CHR ''x'' # rest"
    using assms(1) by (auto simp: prefix_def)
  have "even (length rest)" using hex_ok_even [of rest] assms(2) str by simp
  then show ?thesis using assms(2) str by (simp add: FromHex_def has0xPrefix_def)
qed

lemma leaf_encodings_core:
  assumes "ledger_encode t nm v = Inr e"
  shows "(t = ''string'' \<and> v = VString str \<longrightarrow> trezor_encode StringType name w v = Inr e)
   \<and> (v = VBool b \<longrightarrow> trezor_encode BoolType name w v = Inr e)
   \<and> (t \<noteq> ''string'' \<and> v = VString str \<longrightarrow> trezor_encode BytesType name w v = Inr e)
   \<and> (t \<noteq> ''string'' \<and> (v = VString str \<or> v = VFloat f)
        \<and> dt \<in> {IntType, UintType, AddressType, FixedBytesType} \<longrightarrow>
        trezor_encode dt name w v
          = (if length e \<le> w then Inr (replicate (w - length e) 0 @ e)
             else Inl (ValueTooLong (length e) w)))"
  using assms
  by (auto simp: ledger_encode_def trezor_encode_def FromHex_0x Let_def
      split: if_splits prod.splits)

text \<open>
  C4, as stated, on a \<open>uint256\<close> leaf holding 5: Family B answers the value query with
  32 bytes, Family A sends the length prefix 00 01 and the single byte 05.
\<close>

theorem leaf_encodings_differ:
  "value_query doc_u256 [1, 0] = Inr (replicate 31 0 @ [5], False)
   \<and> sent (snd (sendValue accepting_device doc_u256 fresh_session ''M'' ''message''
                  (VMap (Message doc_u256))))
      = [(0x1c, 0, 0xff, [0, 1, 5])]
   \<and> replicate 31 0 @ [5] \<noteq> drop 2 [0, 1, 5 :: byte]"
  by (simp add: value_query_def doc_u256_def parse_eval map_get_def trezor_encode_def
      int64_Bytes_def big_Bytes.simps sendValue.simps ledger_encode_def ledgerExchange_def
      ledger_consts be16_def accepting_device_def fresh_session_def)

text \<open>
  C4 (amended): whenever Family A encodes a leaf to the bytes \<open>e\<close>, which it sends after
  their 2-byte big-endian length: Family B answers \<open>e\<close> for a string value of a
  \<open>string\<close> field, a boolean of a \<open>bool\<close> field and a hex string of a \<open>bytes\<close>
  field; for a number or a hex string of an int, uint, address or fixed-bytes field of
  width \<open>w\<close> it answers \<open>e\<close> padded on the left with zero bytes to \<open>w\<close> bytes, and
  fails when \<open>e\<close> is longer than \<open>w\<close>. The last two parts tie the encoders to
  \<open>sendValue\<close> and to the last step of a value query.
\<close>

theorem leaf_encodings:
  assumes "ledger_encode t nm v = Inr e"
  shows "(t = ''string'' \<and> v = VString str \<longrightarrow> trezor_encode StringType name w v = Inr e)
   \<and> (v = VBool b \<longrightarrow> trezor_encode BoolType name w v = Inr e)
   \<and> (t \<noteq> ''string'' \<and> v = VString str \<longrightarrow> trezor_encode BytesType name w v = Inr e)
   \<and> (t \<noteq> ''string'' \<and> (v = VString str \<or> v = VFloat f)
        \<and> dt \<in> {IntType, UintType, AddressType, FixedBytesType} \<longrightarrow>
        trezor_encode dt name w v
          = (if length e \<le> w then Inr (replicate (w - length e) 0 @ e)
             else Inl (ValueTooLong (length e) w)))
   \<and> (v \<noteq> VNil \<and> \<not> suffix '']'' t \<and> types_get data t = None
        \<and> ex (dev ses) (0x1c, 0, 0xff, be16 (of_nat (length e)) @ e) = (Inr r, s') \<longrightarrow>
        sendValue ex data ses t nm v
          = (None, \<lparr>dev = s', sent = sent ses @ [(0x1c, 0, 0xff, be16 (of_nat (length e)) @ e)]\<rparr>))
   \<and> (unat p < length fs \<and> parseType data (fs ! unat p) = Inr (dt, name, w, arrays)
        \<and> map_get sv (Name (fs ! unat p)) = v \<and> elements v = None \<longrightarrow>
        resolve_path data (Some fs) sv nested [p]
          = (case trezor_encode dt name w v of
               Inl err \<Rightarrow> Inl err
             | Inr reply \<Rightarrow> Inr (reply, nested \<or> 1 < length arrays)))"
proof -
  have one: "array_descent j v [p] = Inr (v, [p])" for j
    by (cases j) simp_all
  have v: "v \<noteq> VNil" using assms by (auto simp: ledger_encode_def)
  have a: "v \<noteq> VNil \<and> \<not> suffix '']'' t \<and> types_get data t = None
        \<and> ex (dev ses) (0x1c, 0, 0xff, be16 (of_nat (length e)) @ e) = (Inr r, s') \<longrightarrow>
        sendValue ex data ses t nm v
          = (None, \<lparr>dev = s', sent = sent ses @ [(0x1c, 0, 0xff, be16 (of_nat (length e)) @ e)]\<rparr>)"
    using assms by (simp add: sendValue.simps ledgerExchange_def ledger_consts)
  have b: "unat p < length fs \<and> parseType data (fs ! unat p) = Inr (dt, name, w, arrays)
        \<and> map_get sv (Name (fs ! unat p)) = v \<and> elements v = None \<longrightarrow>
        resolve_path data (Some fs) sv nested [p]
          = (case trezor_encode dt name w v of
               Inl err \<Rightarrow> Inl err
             | Inr reply \<Rightarrow> Inr (reply, nested \<or> 1 < length arrays))"
    using v one by (auto split: sum.splits)
  show ?thesis
    using leaf_encodings_core [OF assms, where str = str and name = name and w = w and b = b and dt = dt and f = f] a b by blast
qed

text \<open>
  C4, witness: a string, a boolean, a hex string and the \<open>uint256\<close> leaf 5.
\<close>

theorem leaf_encodings_witness:
  "ledger_encode ''string'' ''b'' (VString ''hi'') = Inr [0x68, 0x69]
   \<and> trezor_encode StringType ''string'' 0 (VString ''hi'') = Inr [0x68, 0x69]
   \<and> ledger_encode ''bool'' ''a'' (VBool True) = Inr [1]
   \<and> trezor_encode BoolType ''bool'' 0 (VBool True) = Inr [1]
   \<and> ledger_encode ''bytes'' ''c'' (VString ''0xdead'') = Inr [0xde, 0xad]
   \<and> trezor_encode BytesType ''bytes'' 0 (VString ''0xdead'') = Inr [0xde, 0xad]
   \<and> ledger_encode ''uint256'' ''x'' (VFloat 5) = Inr [5]
   \<and> trezor_encode UintType ''uint'' 32 (VFloat 5) = Inr (replicate 31 0 @ [5])
   \<and> sendValue accepting_device doc_u256 fresh_session ''uint256'' ''x'' (VFloat 5)
       = (None, \<lparr>dev = (), sent = [(0x1c, 0, 0xff, [0, 1, 5])]\<rparr>)
   \<and> resolve_path doc_u256 (Some [\<lparr>Name = ''x'', Type = ''uint256''\<rparr>]) (Message doc_u256)
         False [0] = Inr (replicate 31 0 @ [5], False)"
proof -
  have l1: "ledger_encode ''string'' ''b'' (VString ''hi'') = Inr [0x68, 0x69]"
    and l2: "ledger_encode ''bool'' ''a'' (VBool True) = Inr [1]"
    and l3: "ledger_encode ''bytes'' ''c'' (VString ''0xdead'') = Inr [0xde, 0xad]"
    and l4: "ledger_encode ''uint256'' ''x'' (VFloat 5) = Inr [5]"
    by (simp_all add: ledger_encode_def bytes_of_def hexval_def int64_Bytes_def big_Bytes.simps)
  have p: "parseType doc_u256 \<lparr>Name = ''x'', Type = ''uint256''\<rparr> = Inr (UintType, ''uint'', 32, [])"
    by (simp add: doc_u256_def parse_eval)
  have t1: "trezor_encode StringType ''string'' 0 (VString ''hi'') = Inr [0x68, 0x69]"
    using leaf_encodings [OF l1, where str = "''hi''" and name = "''string''" and w = 0
        and b = True and f = 0 and dt = StringType and data = doc_u256 and ex = accepting_device
        and ses = fresh_session and r = "[]" and s' = "()" and p = 0
        and fs = "[\<lparr>Name = ''x'', Type = ''uint256''\<rparr>]" and arrays = "[]"
        and sv = "Message doc_u256" and nested = False]
    by simp
  have t2: "trezor_encode BoolType ''bool'' 0 (VBool True) = Inr [1]"
    using leaf_encodings [OF l2, where b = True and name = "''bool''" and w = 0
        and str = "[]" and f = 0 and dt = BoolType and data = doc_u256 and ex = accepting_device
        and ses = fresh_session and r = "[]" and s' = "()" and p = 0
        and fs = "[\<lparr>Name = ''x'', Type = ''uint256''\<rparr>]" and arrays = "[]"
        and sv = "Message doc_u256" and nested = False]
    by simp
  have t3: "trezor_encode BytesType ''bytes'' 0 (VString ''0xdead'') = Inr [0xde, 0xad]"
    using leaf_encodings [OF l3, where str = "''0xdead''" and name = "''bytes''" and w = 0
        and b = True and f = 0 and dt = BytesType and data = doc_u256 and ex = accepting_device
        and ses = fresh_session and r = "[]" and s' = "()" and p = 0
        and fs = "[\<lparr>Name = ''x'', Type = ''uint256''\<rparr>]" and arrays = "[]"
        and sv = "Message doc_u256" and nested = False]
    by simp
  note i4 = leaf_encodings [OF l4, where f = 5 and dt = UintType and str = "[]" and b = True and name = "''uint''" and w = 32
        and data = doc_u256 and ex = accepting_device and ses = fresh_session and r = "[]"
        and s' = "()" and p = 0 and fs = "[\<lparr>Name = ''x'', Type = ''uint256''\<rparr>]"
        and arrays = "[]" and sv = "Message doc_u256" and nested = False]
  have t4: "trezor_encode UintType ''uint'' 32 (VFloat 5) = Inr (replicate 31 0 @ [5])"
    using i4 by simp
  have t5: "sendValue accepting_device doc_u256 fresh_session ''uint256'' ''x'' (VFloat 5)
       = (None, \<lparr>dev = (), sent = [(0x1c, 0, 0xff, [0, 1, 5])]\<rparr>)"
    using i4
    by (simp add: doc_u256_def types_get_def accepting_device_def fresh_session_def be16_def
        suffix_to_prefix)
  have t6: "resolve_path doc_u256 (Some [\<lparr>Name = ''x'', Type = ''uint256''\<rparr>]) (Message doc_u256)
         False [0] = Inr (replicate 31 0 @ [5], False)"
    using i4 p t4 by (simp add: doc_u256_def map_get_def)
  show ?thesis using l1 l2 l3 l4 t1 t2 t3 t4 t5 t6 by blast
qed

lemma resolve_path_flag_set:
  assumes "unat p < length fs" and "parseType data (fs ! unat p) = Inr (dt, name, bl, arrays)"
    and "resolve_path data (Some fs) sv nested (p # rest) = Inr (val, f)"
  shows "(nested \<or> 1 < length arrays \<longrightarrow> f) \<and> (rest = [] \<longrightarrow> f = (nested \<or> 1 < length arrays))"
  using resolve_path_flag [OF assms(3)] assms(1,2)
  by (auto simp: more_than_one_dimension_def)

text \<open>
  C8, as stated, on a field of type \<open>uint8[][]\<close>: the value query [1, 0] ends at the
  field's own array, so the inner loop makes no step and no array level is descended;
  the flag is set all the same, and a firmware failure of the next exchange is reported
  as the nested-array error.
\<close>

theorem nested_arrays_without_descent:
  "array_descent 2 (map_get (Message doc_grid) ''m'') [0] = Inr (VArray [VArray [VFloat 1]], [0])
   \<and> trezor_loop doc_grid (EthereumSignTypedData [] ''M'' []) False
        [Inr (EthereumTypedDataValueRequest [1, 0]),
         Inl (TrezorFailure (Some Failure_FirmwareError))] []
      = (Some (Inl (NestedArraysUnsupported (TrezorFailure (Some Failure_FirmwareError)))),
         [EthereumSignTypedData [] ''M'' [], EthereumTypedDataValueAck [0, 1]])"
proof (rule conjI)
  show "array_descent 2 (map_get (Message doc_grid) ''m'') [0]
        = Inr (VArray [VArray [VFloat 1]], [0])"
    by (simp add: numeral_2_eq_2 doc_grid_def map_get_def)
  show "trezor_loop doc_grid (EthereumSignTypedData [] ''M'' []) False
        [Inr (EthereumTypedDataValueRequest [1, 0]),
         Inl (TrezorFailure (Some Failure_FirmwareError))] []
      = (Some (Inl (NestedArraysUnsupported (TrezorFailure (Some Failure_FirmwareError)))),
         [EthereumSignTypedData [] ''M'' [], EthereumTypedDataValueAck [0, 1]])"
    by (simp add: value_query_def doc_grid_def parse_eval map_get_def be16_def
        is_firmware_failure_def)
qed

text \<open>
  C8 (amended): an exchange that fails is reported as the nested-array error exactly when
  the flag is set and the error is a Trezor failure with the firmware-error code, and as
  the exchange's own error otherwise. The flag at that exchange is the one of the value
  query answered just before; it is cleared after a struct request, and not set at the
  first exchange. A value query sets it as soon as it reads a field whose declared type
  has more than one array level, whether or not the path goes down into the array, and
  in no other case: for every member path, the flag after the resolution is the flag
  before it or the presence, among the fields that the resolution reads
  (\<open>fields_read\<close>), of one with more than one array level. So the failure that follows
  a value query is reported as the nested-array error if and only if it is a firmware
  failure and the query has read such a field.
\<close>

theorem nested_arrays_error:
  "trezor_loop data req nested (Inl err # replies) log
     = (Some (Inl (if nested \<and> is_firmware_failure err then NestedArraysUnsupported err
                   else Exchange err)), log @ [req])
 \<and> (value_query data mp = Inr (val, f) \<longrightarrow>
      trezor_loop data req nested
          (Inr (EthereumTypedDataValueRequest mp) # Inl err # replies) log
        = (Some (Inl (if f \<and> is_firmware_failure err then NestedArraysUnsupported err
                      else Exchange err)), log @ [req, EthereumTypedDataValueAck val]))
 \<and> (struct_query data nm = Inr ack \<longrightarrow>
      trezor_loop data req nested
          (Inr (EthereumTypedDataStructRequest nm) # Inl err # replies) log
        = (Some (Inl (Exchange err)), log @ [req, ack]))
 \<and> (device w \<and> TypedDataAndHash data = Inr D \<and> 66 \<le> length D \<and> fst (tversion w) \<noteq> 1 \<longrightarrow>
      fst (trezor_SignedTypedData TypedDataAndHash SignTypedHash w path data (Inl err # replies))
        = Some (Inl (Exchange err)))
 \<and> (unat p < length fs \<and> parseType data (fs ! unat p) = Inr (dt, name, bl, arrays)
      \<and> resolve_path data (Some fs) sv flag (p # rest) = Inr (val', f') \<longrightarrow>
      (flag \<or> 1 < length arrays \<longrightarrow> f') \<and> (rest = [] \<longrightarrow> f' = (flag \<or> 1 < length arrays)))
 \<and> (resolve_path data st sv' flag' mp' = Inr (val'', f'') \<longrightarrow>
      f'' = (flag' \<or> (\<exists>field \<in> set (fields_read data st sv' mp').
                          more_than_one_dimension data field)))
 \<and> (value_query data mp = Inr (val, f) \<longrightarrow>
      f = (\<exists>field \<in> set (query_fields data mp). more_than_one_dimension data field)
    \<and> (fst (trezor_loop data req nested
               (Inr (EthereumTypedDataValueRequest mp) # Inl err # replies) log)
          = Some (Inl (NestedArraysUnsupported err))
        \<longleftrightarrow> is_firmware_failure err
          \<and> (\<exists>field \<in> set (query_fields data mp). more_than_one_dimension data field)))"
proof -
  have exact: "resolve_path data st sv' flag' mp' = Inr (val'', f'') \<longrightarrow>
      f'' = (flag' \<or> (\<exists>field \<in> set (fields_read data st sv' mp').
                          more_than_one_dimension data field))"
    using resolve_path_flag [of data st sv' flag' mp' val'' f''] by blast
  have query: "f = (\<exists>field \<in> set (query_fields data mp). more_than_one_dimension data field)"
    if "value_query data mp = Inr (val, f)"
    using that resolve_path_flag [of data _ _ False "tl mp" val f]
    by (cases mp) (auto simp: value_query_def query_fields_def split: if_splits)
  have iff: "value_query data mp = Inr (val, f) \<longrightarrow>
      f = (\<exists>field \<in> set (query_fields data mp). more_than_one_dimension data field)
    \<and> (fst (trezor_loop data req nested
               (Inr (EthereumTypedDataValueRequest mp) # Inl err # replies) log)
          = Some (Inl (NestedArraysUnsupported err))
        \<longleftrightarrow> is_firmware_failure err
          \<and> (\<exists>field \<in> set (query_fields data mp). more_than_one_dimension data field))"
  proof
    assume q: "value_query data mp = Inr (val, f)"
    have "fst (trezor_loop data req nested
               (Inr (EthereumTypedDataValueRequest mp) # Inl err # replies) log)
          = Some (Inl (NestedArraysUnsupported err))
        \<longleftrightarrow> is_firmware_failure err \<and> f"
      using q by auto
    then show "f = (\<exists>field \<in> set (query_fields data mp). more_than_one_dimension data field)
    \<and> (fst (trezor_loop data req nested
               (Inr (EthereumTypedDataValueRequest mp) # Inl err # replies) log)
          = Some (Inl (NestedArraysUnsupported err))
        \<longleftrightarrow> is_firmware_failure err
          \<and> (\<exists>field \<in> set (query_fields data mp). more_than_one_dimension data field))"
      using query [OF q] by simp
  qed
  have last: "unat p < length fs \<and> parseType data (fs ! unat p) = Inr (dt, name, bl, arrays)
      \<and> resolve_path data (Some fs) sv flag (p # rest) = Inr (val', f') \<longrightarrow>
      (flag \<or> 1 < length arrays \<longrightarrow> f') \<and> (rest = [] \<longrightarrow> f' = (flag \<or> 1 < length arrays))"
    using resolve_path_flag_set [of p fs data dt name bl arrays sv flag rest val' f'] by blast
  show ?thesis
    apply (intro conjI)
          apply simp
         apply simp
        apply simp
       apply (simp add: trezor_SignedTypedData_def Let_def)
      apply (rule last)
     apply (rule exact)
    apply (rule iff)
    done
qed

text \<open>
  C8, witness: the value query [1, 0] on the \<open>uint8[][]\<close> field, followed by a
  firmware failure and by a transport error, a struct request followed by a firmware
  failure, and the value query [1, 3, 0] for an element of a \<open>uint8[]\<close> field, which
  leaves the flag clear.
\<close>

theorem nested_arrays_error_witness:
  "value_query doc_grid [1, 0] = Inr ([0, 1], True)
   \<and> trezor_loop doc_grid (EthereumSignTypedData [] ''M'' []) False
        [Inr (EthereumTypedDataValueRequest [1, 0]),
         Inl (TrezorFailure (Some Failure_FirmwareError))] []
      = (Some (Inl (NestedArraysUnsupported (TrezorFailure (Some Failure_FirmwareError)))),
         [EthereumSignTypedData [] ''M'' [], EthereumTypedDataValueAck [0, 1]])
   \<and> trezor_loop doc_grid (EthereumSignTypedData [] ''M'' []) False
        [Inr (EthereumTypedDataValueRequest [1, 0]), Inl (TransportError ''timeout'')] []
      = (Some (Inl (Exchange (TransportError ''timeout''))),
         [EthereumSignTypedData [] ''M'' [], EthereumTypedDataValueAck [0, 1]])
   \<and> (\<exists>ack. struct_query doc_grid ''M'' = Inr ack
        \<and> trezor_loop doc_grid (EthereumTypedDataValueAck []) True
             [Inr (EthereumTypedDataStructRequest ''M''),
              Inl (TrezorFailure (Some Failure_FirmwareError))] []
           = (Some (Inl (Exchange (TrezorFailure (Some Failure_FirmwareError)))),
              [EthereumTypedDataValueAck [], ack]))
   \<and> fst (trezor_SignedTypedData (\<lambda>d. Inr digest_example) (\<lambda>p dh mh. Inr [])
             \<lparr>device = True, tversion = (2, 0, 0)\<rparr> [] doc_grid
             [Inl (TrezorFailure (Some Failure_FirmwareError))])
      = Some (Inl (Exchange (TrezorFailure (Some Failure_FirmwareError))))
   \<and> parseType doc_grid \<lparr>Name = ''m'', Type = ''uint8[][]''\<rparr>
       = Inr (UintType, ''uint'', 1, [None, None])
   \<and> resolve_path doc_grid (Some [\<lparr>Name = ''m'', Type = ''uint8[][]''\<rparr>]) (Message doc_grid)
         False [0] = Inr ([0, 1], True)
   \<and> query_fields doc_grid [1, 0] = [\<lparr>Name = ''m'', Type = ''uint8[][]''\<rparr>]
   \<and> more_than_one_dimension doc_grid \<lparr>Name = ''m'', Type = ''uint8[][]''\<rparr>
   \<and> value_query doc_group [1, 3, 0] = Inr ([7], False)
   \<and> query_fields doc_group [1, 3, 0] = [\<lparr>Name = ''scores'', Type = ''uint8[]''\<rparr>]
   \<and> \<not> more_than_one_dimension doc_group \<lparr>Name = ''scores'', Type = ''uint8[]''\<rparr>
   \<and> fst (trezor_loop doc_group (EthereumSignTypedData [] ''Group'' []) False
             [Inr (EthereumTypedDataValueRequest [1, 3, 0]),
              Inl (TrezorFailure (Some Failure_FirmwareError))] [])
      = Some (Inl (Exchange (TrezorFailure (Some Failure_FirmwareError))))"
proof -
  have p2: "parseType doc_group \<lparr>Name = ''scores'', Type = ''uint8[]''\<rparr>
       = Inr (UintType, ''uint'', 1, [None])"
    by (simp add: doc_group_def parse_eval)
  have tg: "types_get doc_group (PrimaryType doc_group)
       = Some [\<lparr>Name = ''owner'', Type = ''Person''\<rparr>,
               \<lparr>Name = ''members'', Type = ''Person[]''\<rparr>,
               \<lparr>Name = ''grid'', Type = ''uint8[][]''\<rparr>,
               \<lparr>Name = ''scores'', Type = ''uint8[]''\<rparr>]"
    "Message doc_group = [(''owner'', VMap [(''name'', VString ''x'')]),
                 (''members'', VArray [VMap [(''name'', VString ''y'')]]),
                 (''grid'', VArray [VArray [VFloat 1, VFloat 2]]),
                 (''scores'', VArray [VFloat 7])]"
    by (simp_all add: doc_group_def types_get_def)
  have q2: "value_query doc_group [1, 3, 0] = Inr ([7], False)"
    using p2
    by (simp add: value_query_def tg map_get_def trezor_encode_def int64_Bytes_def
        big_Bytes.simps)
  have qf2: "query_fields doc_group [1, 3, 0] = [\<lparr>Name = ''scores'', Type = ''uint8[]''\<rparr>]"
    using p2 by (simp add: query_fields_def tg)
  have md2: "\<not> more_than_one_dimension doc_group \<lparr>Name = ''scores'', Type = ''uint8[]''\<rparr>"
    using p2 by (simp add: more_than_one_dimension_def)
  have q: "value_query doc_grid [1, 0] = Inr ([0, 1], True)"
    by (simp add: value_query_def doc_grid_def parse_eval map_get_def be16_def)
  have p: "parseType doc_grid \<lparr>Name = ''m'', Type = ''uint8[][]''\<rparr>
       = Inr (UintType, ''uint'', 1, [None, None])"
    by (simp add: doc_grid_def parse_eval)
  have r: "resolve_path doc_grid (Some [\<lparr>Name = ''m'', Type = ''uint8[][]''\<rparr>]) (Message doc_grid)
         False [0] = Inr ([0, 1], True)"
    using q by (simp add: value_query_def doc_grid_def types_get_def)
  have s: "struct_query doc_grid ''M''
     = Inr (EthereumTypedDataStructAck
         [(''m'', EthereumFieldType Ack_ARRAY None
                   (Some (EthereumFieldType Ack_ARRAY None
                      (Some (EthereumFieldType Ack_UINT (Some 1) None None)) None)) None)])"
    using p by (simp add: struct_query_def doc_grid_def types_get_def base_field_type_def)
  have qf: "query_fields doc_grid [1, 0] = [\<lparr>Name = ''m'', Type = ''uint8[][]''\<rparr>]"
    using p by (simp add: query_fields_def doc_grid_def types_get_def)
  have md: "more_than_one_dimension doc_grid \<lparr>Name = ''m'', Type = ''uint8[][]''\<rparr>"
    using p by (simp add: more_than_one_dimension_def)
  show ?thesis
    using q p r s qf md q2 qf2 md2
      nested_arrays_error [where data = doc_group and mp = "[1, 3, 0]" and val = "[7]"
        and f = False and req = "EthereumSignTypedData [] ''Group'' []" and nested = False
        and replies = "[]" and log = "[]"
        and err = "TrezorFailure (Some Failure_FirmwareError)"]
      nested_arrays_error [where data = doc_grid and mp = "[1, 0]" and val = "[0, 1]" and f = True
        and req = "EthereumSignTypedData [] ''M'' []" and nested = False and replies = "[]"
        and log = "[]" and err = "TrezorFailure (Some Failure_FirmwareError)" and nm = "''M''"
        and w = "\<lparr>device = True, tversion = (2, 0, 0)\<rparr>"
        and TypedDataAndHash = "\<lambda>d. Inr digest_example" and D = digest_example
        and SignTypedHash = "\<lambda>p dh mh. Inr []" and path = "[]"
        and p = 0 and fs = "[\<lparr>Name = ''m'', Type = ''uint8[][]''\<rparr>]" and dt = UintType
        and name = "''uint''" and bl = 1 and arrays = "[None, None]"
        and sv = "Message doc_grid" and flag = False and rest = "[]" and val' = "[0, 1]"
        and f' = True and st = "Some [\<lparr>Name = ''m'', Type = ''uint8[][]''\<rparr>]"
        and sv' = "Message doc_grid" and flag' = False and mp' = "[0]" and val'' = "[0, 1]"
        and f'' = True]
      nested_arrays_error [where data = doc_grid and mp = "[1, 0]" and val = "[0, 1]" and f = True
        and req = "EthereumSignTypedData [] ''M'' []" and nested = False and replies = "[]"
        and log = "[]" and err = "TransportError ''timeout''"]
      nested_arrays_error [where data = doc_grid and nm = "''M''"
        and req = "EthereumTypedDataValueAck []" and nested = True and replies = "[]"
        and log = "[]" and err = "TrezorFailure (Some Failure_FirmwareError)"]
    by (simp add: is_firmware_failure_def digest_example_def)
qed

end
